theory Spec2Isabelle
  imports Complex_Main
begin

section \<open>Python values\<close>

text \<open>
  The converter works on the trees that \<^verbatim>\<open>json.load\<close> produces: \<^verbatim>\<open>None\<close>, booleans,
  integers, floats, strings, lists and dictionaries with string keys. A dictionary is an
  association list in insertion order, as Python keeps it (and as \<^verbatim>\<open>json.dumps\<close> prints
  it); a well-formed dictionary has no key twice.

  A Python string is a sequence of Unicode code points, and so is a string of the model:
  a list of natural numbers. A string literal of the source is written with \<open>lit\<close>, which
  gives the code points of its characters, and a character literal with \<open>cp\<close>.
\<close>

type_synonym codepoint = nat

type_synonym pystr = "codepoint list"

definition cp :: "char \<Rightarrow> codepoint" where
  "cp c = of_char c"

definition lit :: "string \<Rightarrow> pystr" where
  "lit s = map cp s"

datatype json =
    JNull
  | JBool bool
  | JInt int
  | JFloat real
  | JStr pystr
  | JArr "json list"
  | JObj "(pystr \<times> json) list"

type_synonym dict = "(pystr \<times> json) list"

text \<open>
  The exceptions the code can raise, each with its message or the name it was raised for.
  \<open>NonStringKey\<close> is not a Python exception: it stands for a result that has a dictionary
  key which is not a string, which \<open>json\<close> cannot hold (only \<^verbatim>\<open>dict.update\<close> with a list
  of pairs can make one).
\<close>

datatype error =
    ValueError pystr
  | KeyError pystr
  | AttributeError pystr
  | TypeError pystr
  | NonStringKey

definition and_then :: "error + 'a \<Rightarrow> ('a \<Rightarrow> error + 'b) \<Rightarrow> error + 'b" where
  "and_then m f = (case m of Inl e \<Rightarrow> Inl e | Inr x \<Rightarrow> f x)"

subsection \<open>Dictionary operations\<close>

text \<open>
  The operations read only the keys, so they are written for any type of values: they
  serve both for dictionaries of \<open>json\<close> trees and for dictionaries in a store of objects.
\<close>

text \<open>\<^verbatim>\<open>k in d\<close>\<close>

definition dict_contains :: "(pystr \<times> 'v) list \<Rightarrow> pystr \<Rightarrow> bool" where
  "dict_contains d k = (k \<in> set (map fst d))"

text \<open>\<^verbatim>\<open>d.get(k, default)\<close>; \<^verbatim>\<open>d.get(k)\<close> is \<^verbatim>\<open>d.get(k, None)\<close>.\<close>

definition dict_get :: "(pystr \<times> 'v) list \<Rightarrow> pystr \<Rightarrow> 'v \<Rightarrow> 'v" where
  "dict_get d k dflt = (case map_of d k of Some v \<Rightarrow> v | None \<Rightarrow> dflt)"

text \<open>\<^verbatim>\<open>d[k]\<close>, which raises \<^verbatim>\<open>KeyError\<close> on a missing key.\<close>

definition dict_getitem :: "(pystr \<times> 'v) list \<Rightarrow> pystr \<Rightarrow> error + 'v" where
  "dict_getitem d k = (case map_of d k of Some v \<Rightarrow> Inr v | None \<Rightarrow> Inl (KeyError k))"

text \<open>\<^verbatim>\<open>d[k] = v\<close>: an existing key keeps its position, a new key goes to the end.\<close>

fun dict_setitem :: "(pystr \<times> 'v) list \<Rightarrow> pystr \<Rightarrow> 'v \<Rightarrow> (pystr \<times> 'v) list" where
  "dict_setitem [] k v = [(k, v)]"
| "dict_setitem ((k', v') # d) k v =
     (if k' = k then (k, v) # d else (k', v') # dict_setitem d k v)"

text \<open>\<^verbatim>\<open>d.pop(k, None)\<close>, which never raises; the popped value is not used.\<close>

definition dict_pop :: "(pystr \<times> 'v) list \<Rightarrow> pystr \<Rightarrow> (pystr \<times> 'v) list" where
  "dict_pop d k = filter (\<lambda>kv. fst kv \<noteq> k) d"

text \<open>\<^verbatim>\<open>d.copy()\<close> is a new dictionary with the same items.\<close>

definition dict_copy :: "(pystr \<times> 'v) list \<Rightarrow> (pystr \<times> 'v) list" where
  "dict_copy d = d"

text \<open>
  \<^verbatim>\<open>d.update(other)\<close>. A dictionary \<^verbatim>\<open>other\<close> is merged key by key. Anything else is
  iterated as a sequence of pairs: a number, a boolean or \<^verbatim>\<open>None\<close> is not iterable; a string
  yields its characters, none of which is a pair; a list yields its elements, each of which
  must be an iterable of length two (a two-character string, a two-element list, or a
  dictionary with two keys, which yields its keys) whose first component is hashable. The
  errors carry the messages of Python 3.11.
\<close>

text \<open>\<^verbatim>\<open>str(n)\<close> for a natural number, as the messages print an index or a length.\<close>

fun decimal :: "nat \<Rightarrow> pystr" where
  "decimal n =
     (if n < 10 then [cp CHR ''0'' + n]
      else decimal (n div 10) @ [cp CHR ''0'' + n mod 10])"

definition quoted :: "pystr \<Rightarrow> pystr" where
  "quoted s = [cp (CHR 0x27)] @ s @ [cp (CHR 0x27)]"

definition wrong_length :: "nat \<Rightarrow> nat \<Rightarrow> error" where
  "wrong_length i n =
     ValueError (lit ''dictionary update sequence element #'' @ decimal i
                 @ lit '' has length '' @ decimal n @ lit ''; 2 is required'')"

definition not_a_sequence :: "nat \<Rightarrow> error" where
  "not_a_sequence i =
     TypeError (lit ''cannot convert dictionary update sequence element #'' @ decimal i
                @ lit '' to a sequence'')"

definition not_iterable :: "string \<Rightarrow> error" where
  "not_iterable type_name =
     TypeError (quoted (lit type_name) @ lit '' object is not iterable'')"

definition unhashable :: "string \<Rightarrow> error" where
  "unhashable type_name = TypeError (lit ''unhashable type: '' @ quoted (lit type_name))"

text \<open>The pair that the element at index \<open>i\<close> of the sequence gives.\<close>

fun update_pair :: "nat \<Rightarrow> json \<Rightarrow> error + pystr \<times> json" where
  "update_pair i (JStr s) =
     (case s of [a, b] \<Rightarrow> Inr ([a], JStr [b])
      | _ \<Rightarrow> Inl (wrong_length i (length s)))"
| "update_pair i (JArr xs) =
     (case xs of
        [k, v] \<Rightarrow>
          (case k of
             JStr s \<Rightarrow> Inr (s, v)
           | JArr _ \<Rightarrow> Inl (unhashable ''list'')
           | JObj _ \<Rightarrow> Inl (unhashable ''dict'')
           | _ \<Rightarrow> Inl NonStringKey)
      | _ \<Rightarrow> Inl (wrong_length i (length xs)))"
| "update_pair i (JObj d) =
     (case d of [(k1, _), (k2, _)] \<Rightarrow> Inr (k1, JStr k2)
      | _ \<Rightarrow> Inl (wrong_length i (length d)))"
| "update_pair i _ = Inl (not_a_sequence i)"

text \<open>
  The pairs are stored one after the other, up to the first element that raises. A key
  that is not a string is stored like any other, so it is reported only when no later
  element raises.
\<close>

fun update_pairs :: "nat \<Rightarrow> dict \<Rightarrow> json list \<Rightarrow> error + dict" where
  "update_pairs i d [] = Inr d"
| "update_pairs i d (x # xs) =
     (case update_pair i x of
        Inl NonStringKey \<Rightarrow>
          (case update_pairs (Suc i) d xs of
             Inl e \<Rightarrow> Inl e
           | Inr _ \<Rightarrow> Inl NonStringKey)
      | Inl e \<Rightarrow> Inl e
      | Inr (k, v) \<Rightarrow> update_pairs (Suc i) (dict_setitem d k v) xs)"

fun dict_update :: "dict \<Rightarrow> json \<Rightarrow> error + dict" where
  "dict_update d (JObj other) = Inr (fold (\<lambda>(k, v) d'. dict_setitem d' k v) other d)"
| "dict_update d (JArr xs) = update_pairs 0 d xs"
| "dict_update d (JStr s) = (if s = [] then Inr d else Inl (wrong_length 0 1))"
| "dict_update d JNull = Inl (not_iterable ''NoneType'')"
| "dict_update d (JBool _) = Inl (not_iterable ''bool'')"
| "dict_update d (JInt _) = Inl (not_iterable ''int'')"
| "dict_update d (JFloat _) = Inl (not_iterable ''float'')"

section \<open>Name normalization\<close>

text \<open>
  \<^verbatim>\<open>str.isalnum\<close> and \<^verbatim>\<open>str.isdigit\<close> are tables of the Unicode database that Python
  carries. They are given here as Python 3.11 has them (Unicode 14.0.0), each as the list
  of the ranges of code points for which the method is true, for all code points from 0
  to 1114111. The ranges below 256 are kept apart from the others, so that a question
  about an ASCII or Latin-1 character is settled on a short list; from 256 on, 133414
  code points are alphanumeric and 775 are digits. A character is in a table when one of
  the ranges holds it.
\<close>

definition in_ranges :: "(codepoint \<times> codepoint) list \<Rightarrow> codepoint \<Rightarrow> bool" where
  "in_ranges rs c = list_ex (\<lambda>(lo, hi). lo \<le> c \<and> c \<le> hi) rs"

definition alnum_latin :: "(codepoint \<times> codepoint) list" where
  "alnum_latin =
     [(48, 57), (65, 90), (97, 122), (170, 170), (178, 179), (181, 181), (185, 186),
      (188, 190), (192, 214), (216, 246), (248, 255)]"

definition alnum_wide :: "(codepoint \<times> codepoint) list" where
  "alnum_wide =
     [(256, 705), (710, 721), (736, 740), (748, 748), (750, 750), (880, 884), (886, 887),
      (890, 893), (895, 895), (902, 902), (904, 906), (908, 908), (910, 929), (931, 1013),
      (1015, 1153), (1162, 1327), (1329, 1366), (1369, 1369), (1376, 1416), (1488, 1514),
      (1519, 1522), (1568, 1610), (1632, 1641), (1646, 1647), (1649, 1747), (1749, 1749),
      (1765, 1766), (1774, 1788), (1791, 1791), (1808, 1808), (1810, 1839), (1869, 1957),
      (1969, 1969), (1984, 2026), (2036, 2037), (2042, 2042), (2048, 2069), (2074, 2074),
      (2084, 2084), (2088, 2088), (2112, 2136), (2144, 2154), (2160, 2183), (2185, 2190),
      (2208, 2249), (2308, 2361), (2365, 2365), (2384, 2384), (2392, 2401), (2406, 2415),
      (2417, 2432), (2437, 2444), (2447, 2448), (2451, 2472), (2474, 2480), (2482, 2482),
      (2486, 2489), (2493, 2493), (2510, 2510), (2524, 2525), (2527, 2529), (2534, 2545),
      (2548, 2553), (2556, 2556), (2565, 2570), (2575, 2576), (2579, 2600), (2602, 2608),
      (2610, 2611), (2613, 2614), (2616, 2617), (2649, 2652), (2654, 2654), (2662, 2671),
      (2674, 2676), (2693, 2701), (2703, 2705), (2707, 2728), (2730, 2736), (2738, 2739),
      (2741, 2745), (2749, 2749), (2768, 2768), (2784, 2785), (2790, 2799), (2809, 2809),
      (2821, 2828), (2831, 2832), (2835, 2856), (2858, 2864), (2866, 2867), (2869, 2873),
      (2877, 2877), (2908, 2909), (2911, 2913), (2918, 2927), (2929, 2935), (2947, 2947),
      (2949, 2954), (2958, 2960), (2962, 2965), (2969, 2970), (2972, 2972), (2974, 2975),
      (2979, 2980), (2984, 2986), (2990, 3001), (3024, 3024), (3046, 3058), (3077, 3084),
      (3086, 3088), (3090, 3112), (3114, 3129), (3133, 3133), (3160, 3162), (3165, 3165),
      (3168, 3169), (3174, 3183), (3192, 3198), (3200, 3200), (3205, 3212), (3214, 3216),
      (3218, 3240), (3242, 3251), (3253, 3257), (3261, 3261), (3293, 3294), (3296, 3297),
      (3302, 3311), (3313, 3314), (3332, 3340), (3342, 3344), (3346, 3386), (3389, 3389),
      (3406, 3406), (3412, 3414), (3416, 3425), (3430, 3448), (3450, 3455), (3461, 3478),
      (3482, 3505), (3507, 3515), (3517, 3517), (3520, 3526), (3558, 3567), (3585, 3632),
      (3634, 3635), (3648, 3654), (3664, 3673), (3713, 3714), (3716, 3716), (3718, 3722),
      (3724, 3747), (3749, 3749), (3751, 3760), (3762, 3763), (3773, 3773), (3776, 3780),
      (3782, 3782), (3792, 3801), (3804, 3807), (3840, 3840), (3872, 3891), (3904, 3911),
      (3913, 3948), (3976, 3980), (4096, 4138), (4159, 4169), (4176, 4181), (4186, 4189),
      (4193, 4193), (4197, 4198), (4206, 4208), (4213, 4225), (4238, 4238), (4240, 4249),
      (4256, 4293), (4295, 4295), (4301, 4301), (4304, 4346), (4348, 4680), (4682, 4685),
      (4688, 4694), (4696, 4696), (4698, 4701), (4704, 4744), (4746, 4749), (4752, 4784),
      (4786, 4789), (4792, 4798), (4800, 4800), (4802, 4805), (4808, 4822), (4824, 4880),
      (4882, 4885), (4888, 4954), (4969, 4988), (4992, 5007), (5024, 5109), (5112, 5117),
      (5121, 5740), (5743, 5759), (5761, 5786), (5792, 5866), (5870, 5880), (5888, 5905),
      (5919, 5937), (5952, 5969), (5984, 5996), (5998, 6000), (6016, 6067), (6103, 6103),
      (6108, 6108), (6112, 6121), (6128, 6137), (6160, 6169), (6176, 6264), (6272, 6276),
      (6279, 6312), (6314, 6314), (6320, 6389), (6400, 6430), (6470, 6509), (6512, 6516),
      (6528, 6571), (6576, 6601), (6608, 6618), (6656, 6678), (6688, 6740), (6784, 6793),
      (6800, 6809), (6823, 6823), (6917, 6963), (6981, 6988), (6992, 7001), (7043, 7072),
      (7086, 7141), (7168, 7203), (7232, 7241), (7245, 7293), (7296, 7304), (7312, 7354),
      (7357, 7359), (7401, 7404), (7406, 7411), (7413, 7414), (7418, 7418), (7424, 7615),
      (7680, 7957), (7960, 7965), (7968, 8005), (8008, 8013), (8016, 8023), (8025, 8025),
      (8027, 8027), (8029, 8029), (8031, 8061), (8064, 8116), (8118, 8124), (8126, 8126),
      (8130, 8132), (8134, 8140), (8144, 8147), (8150, 8155), (8160, 8172), (8178, 8180),
      (8182, 8188), (8304, 8305), (8308, 8313), (8319, 8329), (8336, 8348), (8450, 8450),
      (8455, 8455), (8458, 8467), (8469, 8469), (8473, 8477), (8484, 8484), (8486, 8486),
      (8488, 8488), (8490, 8493), (8495, 8505), (8508, 8511), (8517, 8521), (8526, 8526),
      (8528, 8585), (9312, 9371), (9450, 9471), (10102, 10131), (11264, 11492),
      (11499, 11502), (11506, 11507), (11517, 11517), (11520, 11557), (11559, 11559),
      (11565, 11565), (11568, 11623), (11631, 11631), (11648, 11670), (11680, 11686),
      (11688, 11694), (11696, 11702), (11704, 11710), (11712, 11718), (11720, 11726),
      (11728, 11734), (11736, 11742), (11823, 11823), (12293, 12295), (12321, 12329),
      (12337, 12341), (12344, 12348), (12353, 12438), (12445, 12447), (12449, 12538),
      (12540, 12543), (12549, 12591), (12593, 12686), (12690, 12693), (12704, 12735),
      (12784, 12799), (12832, 12841), (12872, 12879), (12881, 12895), (12928, 12937),
      (12977, 12991), (13312, 19903), (19968, 42124), (42192, 42237), (42240, 42508),
      (42512, 42539), (42560, 42606), (42623, 42653), (42656, 42735), (42775, 42783),
      (42786, 42888), (42891, 42954), (42960, 42961), (42963, 42963), (42965, 42969),
      (42994, 43009), (43011, 43013), (43015, 43018), (43020, 43042), (43056, 43061),
      (43072, 43123), (43138, 43187), (43216, 43225), (43250, 43255), (43259, 43259),
      (43261, 43262), (43264, 43301), (43312, 43334), (43360, 43388), (43396, 43442),
      (43471, 43481), (43488, 43492), (43494, 43518), (43520, 43560), (43584, 43586),
      (43588, 43595), (43600, 43609), (43616, 43638), (43642, 43642), (43646, 43695),
      (43697, 43697), (43701, 43702), (43705, 43709), (43712, 43712), (43714, 43714),
      (43739, 43741), (43744, 43754), (43762, 43764), (43777, 43782), (43785, 43790),
      (43793, 43798), (43808, 43814), (43816, 43822), (43824, 43866), (43868, 43881),
      (43888, 44002), (44016, 44025), (44032, 55203), (55216, 55238), (55243, 55291),
      (63744, 64109), (64112, 64217), (64256, 64262), (64275, 64279), (64285, 64285),
      (64287, 64296), (64298, 64310), (64312, 64316), (64318, 64318), (64320, 64321),
      (64323, 64324), (64326, 64433), (64467, 64829), (64848, 64911), (64914, 64967),
      (65008, 65019), (65136, 65140), (65142, 65276), (65296, 65305), (65313, 65338),
      (65345, 65370), (65382, 65470), (65474, 65479), (65482, 65487), (65490, 65495),
      (65498, 65500), (65536, 65547), (65549, 65574), (65576, 65594), (65596, 65597),
      (65599, 65613), (65616, 65629), (65664, 65786), (65799, 65843), (65856, 65912),
      (65930, 65931), (66176, 66204), (66208, 66256), (66273, 66299), (66304, 66339),
      (66349, 66378), (66384, 66421), (66432, 66461), (66464, 66499), (66504, 66511),
      (66513, 66517), (66560, 66717), (66720, 66729), (66736, 66771), (66776, 66811),
      (66816, 66855), (66864, 66915), (66928, 66938), (66940, 66954), (66956, 66962),
      (66964, 66965), (66967, 66977), (66979, 66993), (66995, 67001), (67003, 67004),
      (67072, 67382), (67392, 67413), (67424, 67431), (67456, 67461), (67463, 67504),
      (67506, 67514), (67584, 67589), (67592, 67592), (67594, 67637), (67639, 67640),
      (67644, 67644), (67647, 67669), (67672, 67702), (67705, 67742), (67751, 67759),
      (67808, 67826), (67828, 67829), (67835, 67867), (67872, 67897), (67968, 68023),
      (68028, 68047), (68050, 68096), (68112, 68115), (68117, 68119), (68121, 68149),
      (68160, 68168), (68192, 68222), (68224, 68255), (68288, 68295), (68297, 68324),
      (68331, 68335), (68352, 68405), (68416, 68437), (68440, 68466), (68472, 68497),
      (68521, 68527), (68608, 68680), (68736, 68786), (68800, 68850), (68858, 68899),
      (68912, 68921), (69216, 69246), (69248, 69289), (69296, 69297), (69376, 69415),
      (69424, 69445), (69457, 69460), (69488, 69505), (69552, 69579), (69600, 69622),
      (69635, 69687), (69714, 69743), (69745, 69746), (69749, 69749), (69763, 69807),
      (69840, 69864), (69872, 69881), (69891, 69926), (69942, 69951), (69956, 69956),
      (69959, 69959), (69968, 70002), (70006, 70006), (70019, 70066), (70081, 70084),
      (70096, 70106), (70108, 70108), (70113, 70132), (70144, 70161), (70163, 70187),
      (70272, 70278), (70280, 70280), (70282, 70285), (70287, 70301), (70303, 70312),
      (70320, 70366), (70384, 70393), (70405, 70412), (70415, 70416), (70419, 70440),
      (70442, 70448), (70450, 70451), (70453, 70457), (70461, 70461), (70480, 70480),
      (70493, 70497), (70656, 70708), (70727, 70730), (70736, 70745), (70751, 70753),
      (70784, 70831), (70852, 70853), (70855, 70855), (70864, 70873), (71040, 71086),
      (71128, 71131), (71168, 71215), (71236, 71236), (71248, 71257), (71296, 71338),
      (71352, 71352), (71360, 71369), (71424, 71450), (71472, 71483), (71488, 71494),
      (71680, 71723), (71840, 71922), (71935, 71942), (71945, 71945), (71948, 71955),
      (71957, 71958), (71960, 71983), (71999, 71999), (72001, 72001), (72016, 72025),
      (72096, 72103), (72106, 72144), (72161, 72161), (72163, 72163), (72192, 72192),
      (72203, 72242), (72250, 72250), (72272, 72272), (72284, 72329), (72349, 72349),
      (72368, 72440), (72704, 72712), (72714, 72750), (72768, 72768), (72784, 72812),
      (72818, 72847), (72960, 72966), (72968, 72969), (72971, 73008), (73030, 73030),
      (73040, 73049), (73056, 73061), (73063, 73064), (73066, 73097), (73112, 73112),
      (73120, 73129), (73440, 73458), (73648, 73648), (73664, 73684), (73728, 74649),
      (74752, 74862), (74880, 75075), (77712, 77808), (77824, 78894), (82944, 83526),
      (92160, 92728), (92736, 92766), (92768, 92777), (92784, 92862), (92864, 92873),
      (92880, 92909), (92928, 92975), (92992, 92995), (93008, 93017), (93019, 93025),
      (93027, 93047), (93053, 93071), (93760, 93846), (93952, 94026), (94032, 94032),
      (94099, 94111), (94176, 94177), (94179, 94179), (94208, 100343), (100352, 101589),
      (101632, 101640), (110576, 110579), (110581, 110587), (110589, 110590),
      (110592, 110882), (110928, 110930), (110948, 110951), (110960, 111355),
      (113664, 113770), (113776, 113788), (113792, 113800), (113808, 113817),
      (119520, 119539), (119648, 119672), (119808, 119892), (119894, 119964),
      (119966, 119967), (119970, 119970), (119973, 119974), (119977, 119980),
      (119982, 119993), (119995, 119995), (119997, 120003), (120005, 120069),
      (120071, 120074), (120077, 120084), (120086, 120092), (120094, 120121),
      (120123, 120126), (120128, 120132), (120134, 120134), (120138, 120144),
      (120146, 120485), (120488, 120512), (120514, 120538), (120540, 120570),
      (120572, 120596), (120598, 120628), (120630, 120654), (120656, 120686),
      (120688, 120712), (120714, 120744), (120746, 120770), (120772, 120779),
      (120782, 120831), (122624, 122654), (123136, 123180), (123191, 123197),
      (123200, 123209), (123214, 123214), (123536, 123565), (123584, 123627),
      (123632, 123641), (124896, 124902), (124904, 124907), (124909, 124910),
      (124912, 124926), (124928, 125124), (125127, 125135), (125184, 125251),
      (125259, 125259), (125264, 125273), (126065, 126123), (126125, 126127),
      (126129, 126132), (126209, 126253), (126255, 126269), (126464, 126467),
      (126469, 126495), (126497, 126498), (126500, 126500), (126503, 126503),
      (126505, 126514), (126516, 126519), (126521, 126521), (126523, 126523),
      (126530, 126530), (126535, 126535), (126537, 126537), (126539, 126539),
      (126541, 126543), (126545, 126546), (126548, 126548), (126551, 126551),
      (126553, 126553), (126555, 126555), (126557, 126557), (126559, 126559),
      (126561, 126562), (126564, 126564), (126567, 126570), (126572, 126578),
      (126580, 126583), (126585, 126588), (126590, 126590), (126592, 126601),
      (126603, 126619), (126625, 126627), (126629, 126633), (126635, 126651),
      (127232, 127244), (130032, 130041), (131072, 173791), (173824, 177976),
      (177984, 178205), (178208, 183969), (183984, 191456), (194560, 195101),
      (196608, 201546)]"

definition digit_latin :: "(codepoint \<times> codepoint) list" where
  "digit_latin =
     [(48, 57), (178, 179), (185, 185)]"

definition digit_wide :: "(codepoint \<times> codepoint) list" where
  "digit_wide =
     [(1632, 1641), (1776, 1785), (1984, 1993), (2406, 2415), (2534, 2543), (2662, 2671),
      (2790, 2799), (2918, 2927), (3046, 3055), (3174, 3183), (3302, 3311), (3430, 3439),
      (3558, 3567), (3664, 3673), (3792, 3801), (3872, 3881), (4160, 4169), (4240, 4249),
      (4969, 4977), (6112, 6121), (6160, 6169), (6470, 6479), (6608, 6618), (6784, 6793),
      (6800, 6809), (6992, 7001), (7088, 7097), (7232, 7241), (7248, 7257), (8304, 8304),
      (8308, 8313), (8320, 8329), (9312, 9320), (9332, 9340), (9352, 9360), (9450, 9450),
      (9461, 9469), (9471, 9471), (10102, 10110), (10112, 10120), (10122, 10130),
      (42528, 42537), (43216, 43225), (43264, 43273), (43472, 43481), (43504, 43513),
      (43600, 43609), (44016, 44025), (65296, 65305), (66720, 66729), (68160, 68163),
      (68912, 68921), (69216, 69224), (69714, 69722), (69734, 69743), (69872, 69881),
      (69942, 69951), (70096, 70105), (70384, 70393), (70736, 70745), (70864, 70873),
      (71248, 71257), (71360, 71369), (71472, 71481), (71904, 71913), (72016, 72025),
      (72784, 72793), (73040, 73049), (73120, 73129), (92768, 92777), (92864, 92873),
      (93008, 93017), (120782, 120831), (123200, 123209), (123632, 123641),
      (125264, 125273), (127232, 127242), (130032, 130041)]"

definition isalnum :: "codepoint \<Rightarrow> bool" where
  "isalnum c = (if c < 256 then in_ranges alnum_latin c else in_ranges alnum_wide c)"

definition isdigit :: "codepoint \<Rightarrow> bool" where
  "isdigit c = (if c < 256 then in_ranges digit_latin c else in_ranges digit_wide c)"

text \<open>\<^verbatim>\<open>s.replace(old, new)\<close> for one-character \<^verbatim>\<open>old\<close> and \<^verbatim>\<open>new\<close>.\<close>

definition str_replace :: "pystr \<Rightarrow> codepoint \<Rightarrow> codepoint \<Rightarrow> pystr" where
  "str_replace s old new = map (\<lambda>c. if c = old then new else c) s"

definition normalize_name :: "pystr \<Rightarrow> pystr" where
  "normalize_name name =
     (let normalized = str_replace (str_replace name (cp CHR '' '') (cp CHR ''_''))
                         (cp CHR ''-'') (cp CHR ''_'');
          normalized = filter (\<lambda>c. isalnum c \<or> c = cp CHR ''_'') normalized;
          normalized = (if normalized \<noteq> [] \<and> isdigit (hd normalized)
                        then lit ''_'' @ normalized else normalized)
      in if normalized \<noteq> [] then normalized else lit ''unnamed_tool'')"

text \<open>
  \<^verbatim>\<open>self._normalize_name(name)\<close> as the extractor calls it: \<^verbatim>\<open>name\<close> is whatever the document
  holds, and only a string has a \<^verbatim>\<open>replace\<close> method.
\<close>

definition call_normalize_name :: "json \<Rightarrow> error + pystr" where
  "call_normalize_name name =
     (case name of JStr s \<Rightarrow> Inr (normalize_name s)
      | _ \<Rightarrow> Inl (AttributeError (lit ''replace'')))"

section \<open>The metadata extractor\<close>

text \<open>
  The \<^verbatim>\<open>if\<close>/\<^verbatim>\<open>elif\<close>/\<^verbatim>\<open>else\<close> block of \<^verbatim>\<open>_extract_tool_metadata\<close> that builds the local
  variable \<^verbatim>\<open>parameters\<close>.
\<close>

definition build_parameters :: "dict \<Rightarrow> error + json" where
  "build_parameters schema =
     (if dict_contains schema (lit ''properties'') then
        (let parameters = [(lit ''type'', JStr (lit ''object'')),
                           (lit ''properties'', dict_get schema (lit ''properties'') (JObj []))]
         in and_then
              (if dict_contains schema (lit ''required'')
               then and_then (dict_getitem schema (lit ''required''))
                      (\<lambda>r. Inr (dict_setitem parameters (lit ''required'') r))
               else Inr parameters)
              (\<lambda>parameters.
                 if dict_get schema (lit ''additionalProperties'') JNull \<noteq> JNull
                 then and_then (dict_getitem schema (lit ''additionalProperties''))
                        (\<lambda>a. Inr (JObj (dict_setitem parameters (lit ''additionalProperties'') a)))
                 else Inr (JObj parameters)))
      else if dict_contains schema (lit ''parameters'') then
        dict_getitem schema (lit ''parameters'')
      else
        (let parameters = dict_copy schema;
             parameters = dict_pop parameters (lit ''name'');
             parameters = dict_pop parameters (lit ''title'');
             parameters = dict_pop parameters (lit ''description'');
             parameters = (if \<not> dict_contains parameters (lit ''type'')
                           then dict_setitem parameters (lit ''type'') (JStr (lit ''object''))
                           else parameters)
         in Inr (JObj parameters)))"

definition extract_tool_metadata :: "dict \<Rightarrow> error + dict" where
  "extract_tool_metadata schema =
     (let name = dict_get schema (lit ''name'')
                   (dict_get schema (lit ''title'') (JStr (lit ''unnamed_tool'')));
          description = dict_get schema (lit ''description'') (JStr [])
      in and_then (build_parameters schema) (\<lambda>parameters.
         and_then (call_normalize_name name) (\<lambda>normalized.
           Inr [(lit ''name'', JStr normalized),
                (lit ''description'', description),
                (lit ''parameters'', parameters)])))"

section \<open>The OpenAI formatter\<close>

definition openai_format :: "dict \<Rightarrow> error + json" where
  "openai_format metadata =
     and_then (dict_getitem metadata (lit ''name'')) (\<lambda>name.
     and_then (dict_getitem metadata (lit ''description'')) (\<lambda>description.
     and_then (dict_getitem metadata (lit ''parameters'')) (\<lambda>parameters.
       Inr (JObj [(lit ''type'', JStr (lit ''function'')),
                  (lit ''function'', JObj [(lit ''name'', name),
                                       (lit ''description'', description),
                                       (lit ''parameters'', parameters)])]))))"

section \<open>The Anthropic formatter\<close>

definition anthropic_format :: "dict \<Rightarrow> error + json" where
  "anthropic_format metadata =
     and_then (dict_getitem metadata (lit ''name'')) (\<lambda>name.
     and_then (dict_getitem metadata (lit ''description'')) (\<lambda>description.
     and_then (dict_getitem metadata (lit ''parameters'')) (\<lambda>parameters.
       Inr (JObj [(lit ''name'', name),
                  (lit ''description'', description),
                  (lit ''input_schema'', parameters)]))))"

section \<open>The converter\<close>

text \<open>
  \<^verbatim>\<open>SchemaConverter(schema)\<close> stores the document after \<^verbatim>\<open>_validate_schema\<close> has checked
  that it is a dictionary; the converter is that dictionary.
\<close>

definition SchemaConverter :: "json \<Rightarrow> error + dict" where
  "SchemaConverter schema =
     (case schema of JObj d \<Rightarrow> Inr d
      | _ \<Rightarrow> Inl (ValueError (lit ''Schema must be a dictionary'')))"

definition SUPPORTED_FORMATS :: "pystr list" where
  "SUPPORTED_FORMATS = [lit ''openai'', lit ''anthropic'']"

text \<open>\<^verbatim>\<open>sep.join(xs)\<close>\<close>

fun str_join :: "pystr \<Rightarrow> pystr list \<Rightarrow> pystr" where
  "str_join sep [] = []"
| "str_join sep [x] = x"
| "str_join sep (x # y # ys) = x @ sep @ str_join sep (y # ys)"

definition convert :: "dict \<Rightarrow> pystr \<Rightarrow> error + json" where
  "convert schema fmt =
     (if fmt \<notin> set SUPPORTED_FORMATS then
        Inl (ValueError (lit ''Unsupported format: '' @ fmt @ lit ''. Supported formats: ''
                          @ str_join (lit '', '') SUPPORTED_FORMATS))
      else and_then (extract_tool_metadata schema) (\<lambda>metadata.
        if fmt = lit ''openai'' then openai_format metadata
        else if fmt = lit ''anthropic'' then anthropic_format metadata
        else Inl (ValueError (lit ''Unknown format: '' @ fmt))))"

section \<open>The validators\<close>

subsection \<open>OpenAI\<close>

text \<open>
  \<^verbatim>\<open>OpenAIFormatter.validate\<close>. The list \<^verbatim>\<open>errors\<close> is threaded through the checks; the
  three blocks that check the function's name, description and parameters are definitions
  of their own, each taking the list and returning it extended.
\<close>

definition openai_check_name :: "dict \<Rightarrow> pystr list \<Rightarrow> error + pystr list" where
  "openai_check_name func errors =
     (if \<not> dict_contains func (lit ''name'') then
        Inr (errors @ [lit ''Function must have a 'name' field''])
      else and_then (dict_getitem func (lit ''name'')) (\<lambda>name.
        case name of
          JStr s \<Rightarrow>
            (if s = [] then Inr (errors @ [lit ''Function 'name' cannot be empty''])
             else Inr errors)
        | _ \<Rightarrow> Inr (errors @ [lit ''Function 'name' must be a string''])))"

definition openai_check_description :: "dict \<Rightarrow> pystr list \<Rightarrow> error + pystr list" where
  "openai_check_description func errors =
     (if dict_contains func (lit ''description'') then
        and_then (dict_getitem func (lit ''description'')) (\<lambda>description.
          case description of
            JStr _ \<Rightarrow> Inr errors
          | _ \<Rightarrow> Inr (errors @ [lit ''Function 'description' must be a string'']))
      else Inr errors)"

definition openai_check_parameters :: "dict \<Rightarrow> pystr list \<Rightarrow> error + pystr list" where
  "openai_check_parameters func errors =
     (if \<not> dict_contains func (lit ''parameters'') then
        Inr (errors @ [lit ''Function must have a 'parameters' field''])
      else and_then (dict_getitem func (lit ''parameters'')) (\<lambda>parameters.
        case parameters of
          JObj params \<Rightarrow>
            (let errors = (if dict_get params (lit ''type'') JNull \<noteq> JStr (lit ''object'')
                           then errors @ [lit ''Function parameters 'type' must be ''
                                          @ quoted (lit ''object'')]
                           else errors);
                 errors = (if \<not> dict_contains params (lit ''properties'')
                           then errors @ [lit ''Function parameters must have ''
                                          @ quoted (lit ''properties'')]
                           else errors)
             in Inr errors)
        | _ \<Rightarrow> Inr (errors @ [lit ''Function 'parameters' must be a dictionary''])))"

definition openai_validate :: "json \<Rightarrow> error + bool \<times> pystr list" where
  "openai_validate tool =
     (let errors = [] in
      case tool of
        JObj t \<Rightarrow>
          (let errors = (if dict_get t (lit ''type'') JNull \<noteq> JStr (lit ''function'')
                         then errors @ [lit ''Tool 'type' must be '' @ quoted (lit ''function'')]
                         else errors)
           in if \<not> dict_contains t (lit ''function'') then
                (let errors = errors @ [lit ''Tool must have a 'function' field'']
                 in Inr (length errors = 0, errors))
              else and_then (dict_getitem t (lit ''function'')) (\<lambda>func.
                case func of
                  JObj f \<Rightarrow>
                    and_then (openai_check_name f errors) (\<lambda>errors.
                    and_then (openai_check_description f errors) (\<lambda>errors.
                    and_then (openai_check_parameters f errors) (\<lambda>errors.
                      Inr (length errors = 0, errors))))
                | _ \<Rightarrow>
                    (let errors = errors @ [quoted (lit ''function'')
                                            @ lit '' must be a dictionary'']
                     in Inr (length errors = 0, errors))))
      | _ \<Rightarrow> Inr (False, [lit ''Tool must be a dictionary'']))"

subsection \<open>Anthropic\<close>

text \<open>\<^verbatim>\<open>AnthropicFormatter.validate\<close>, in the same way.\<close>

definition anthropic_check_name :: "dict \<Rightarrow> pystr list \<Rightarrow> error + pystr list" where
  "anthropic_check_name tool errors =
     (if \<not> dict_contains tool (lit ''name'') then
        Inr (errors @ [lit ''Tool must have a 'name' field''])
      else and_then (dict_getitem tool (lit ''name'')) (\<lambda>name.
        case name of
          JStr s \<Rightarrow>
            (if s = [] then Inr (errors @ [lit ''Tool 'name' cannot be empty''])
             else Inr errors)
        | _ \<Rightarrow> Inr (errors @ [lit ''Tool 'name' must be a string''])))"

definition anthropic_check_description :: "dict \<Rightarrow> pystr list \<Rightarrow> error + pystr list" where
  "anthropic_check_description tool errors =
     (if dict_contains tool (lit ''description'') then
        and_then (dict_getitem tool (lit ''description'')) (\<lambda>description.
          case description of
            JStr _ \<Rightarrow> Inr errors
          | _ \<Rightarrow> Inr (errors @ [lit ''Tool 'description' must be a string'']))
      else Inr errors)"

definition anthropic_check_input_schema :: "dict \<Rightarrow> pystr list \<Rightarrow> error + pystr list" where
  "anthropic_check_input_schema tool errors =
     (if \<not> dict_contains tool (lit ''input_schema'') then
        Inr (errors @ [lit ''Tool must have an 'input_schema' field''])
      else and_then (dict_getitem tool (lit ''input_schema'')) (\<lambda>input_schema.
        case input_schema of
          JObj schema \<Rightarrow>
            (let errors = (if dict_get schema (lit ''type'') JNull \<noteq> JStr (lit ''object'')
                           then errors @ [lit ''Tool input_schema 'type' must be ''
                                          @ quoted (lit ''object'')]
                           else errors);
                 errors = (if \<not> dict_contains schema (lit ''properties'')
                           then errors @ [lit ''Tool input_schema must have ''
                                          @ quoted (lit ''properties'')]
                           else errors)
             in Inr errors)
        | _ \<Rightarrow> Inr (errors @ [lit ''Tool 'input_schema' must be a dictionary''])))"

definition anthropic_validate :: "json \<Rightarrow> error + bool \<times> pystr list" where
  "anthropic_validate tool =
     (let errors = [] in
      case tool of
        JObj t \<Rightarrow>
          and_then (anthropic_check_name t errors) (\<lambda>errors.
          and_then (anthropic_check_description t errors) (\<lambda>errors.
          and_then (anthropic_check_input_schema t errors) (\<lambda>errors.
            Inr (length errors = 0, errors))))
      | _ \<Rightarrow> Inr (False, [lit ''Tool must be a dictionary'']))"

section \<open>Extracting a schema from a tool definition\<close>

text \<open>
  \<^verbatim>\<open>x.get(k, default)\<close> on a value that may not be a dictionary: only a dictionary has
  \<^verbatim>\<open>get\<close>.
\<close>

definition call_get :: "json \<Rightarrow> pystr \<Rightarrow> json \<Rightarrow> error + json" where
  "call_get x k dflt =
     (case x of JObj d \<Rightarrow> Inr (dict_get d k dflt)
      | _ \<Rightarrow> Inl (AttributeError (lit ''get'')))"

definition openai_extract_schema :: "json \<Rightarrow> error + dict" where
  "openai_extract_schema tool =
     and_then (call_get tool (lit ''function'') (JObj [])) (\<lambda>func.
     and_then (call_get func (lit ''name'') (JStr [])) (\<lambda>name.
     and_then (call_get func (lit ''description'') (JStr [])) (\<lambda>description.
       let schema = [(lit ''name'', name), (lit ''description'', description)]
       in and_then (call_get func (lit ''parameters'') (JObj [])) (\<lambda>params.
            dict_update schema params))))"

definition anthropic_extract_schema :: "json \<Rightarrow> error + dict" where
  "anthropic_extract_schema tool =
     and_then (call_get tool (lit ''name'') (JStr [])) (\<lambda>name.
     and_then (call_get tool (lit ''description'') (JStr [])) (\<lambda>description.
       let schema = [(lit ''name'', name), (lit ''description'', description)]
       in and_then (call_get tool (lit ''input_schema'') (JObj [])) (\<lambda>input_schema.
            dict_update schema input_schema)))"

section \<open>The converter on a store of objects\<close>

text \<open>
  In Python a dictionary is an object that is reached through references, and
  \<^verbatim>\<open>d[k] = v\<close> and \<^verbatim>\<open>d.pop(k)\<close> change it for everyone who holds a reference. To say what
  the converter does to the document it was given, the same code is modelled once more on
  a store: a value is a scalar or a reference, the store is the list of the objects
  allocated so far, and the address of an object is its index. A new object goes to the
  end of the list.
\<close>

type_synonym addr = nat

datatype pyval =
    VNone
  | VBool bool
  | VInt int
  | VFloat real
  | VStr pystr
  | VRef addr

datatype pyobj =
    DictObj "(pystr \<times> pyval) list"
  | ListObj "pyval list"

type_synonym heap = "pyobj list"

text \<open>The items of the dictionary at an address.\<close>

definition heap_dict :: "heap \<Rightarrow> addr \<Rightarrow> (pystr \<times> pyval) list" where
  "heap_dict h a =
     (if a < length h then (case h ! a of DictObj d \<Rightarrow> d | ListObj _ \<Rightarrow> []) else [])"

text \<open>A dictionary display \<^verbatim>\<open>{...}\<close> allocates a new object.\<close>

definition heap_new :: "pyobj \<Rightarrow> heap \<Rightarrow> addr \<times> heap" where
  "heap_new obj h = (length h, h @ [obj])"

text \<open>\<^verbatim>\<open>d[k] = v\<close> and \<^verbatim>\<open>d.pop(k, None)\<close> change the object at the address of \<^verbatim>\<open>d\<close>.\<close>

definition heap_setitem :: "addr \<Rightarrow> pystr \<Rightarrow> pyval \<Rightarrow> heap \<Rightarrow> heap" where
  "heap_setitem a k v h = h[a := DictObj (dict_setitem (heap_dict h a) k v)]"

definition heap_pop :: "addr \<Rightarrow> pystr \<Rightarrow> heap \<Rightarrow> heap" where
  "heap_pop a k h = h[a := DictObj (dict_pop (heap_dict h a) k)]"

text \<open>\<^verbatim>\<open>d.copy()\<close> allocates a new dictionary with the items of \<^verbatim>\<open>d\<close> (a shallow copy).\<close>

definition heap_copy :: "addr \<Rightarrow> heap \<Rightarrow> addr \<times> heap" where
  "heap_copy a h = heap_new (DictObj (dict_copy (heap_dict h a))) h"

text \<open>
  \<^verbatim>\<open>_extract_tool_metadata\<close> on the store; \<^verbatim>\<open>self.schema\<close> is the address of the document.
  Every read of \<^verbatim>\<open>self.schema\<close> or of \<^verbatim>\<open>parameters\<close> looks the object up in the store as it
  is at that point.
\<close>

definition heap_build_parameters :: "addr \<Rightarrow> heap \<Rightarrow> (error + pyval) \<times> heap" where
  "heap_build_parameters self_schema h =
     (if dict_contains (heap_dict h self_schema) (lit ''properties'') then
        (let (dflt, h) = heap_new (DictObj []) h;
             (parameters, h) =
               heap_new (DictObj [(lit ''type'', VStr (lit ''object'')),
                                  (lit ''properties'',
                                   dict_get (heap_dict h self_schema) (lit ''properties'')
                                     (VRef dflt))]) h;
             (raised, h) =
               (if dict_contains (heap_dict h self_schema) (lit ''required'') then
                  (case dict_getitem (heap_dict h self_schema) (lit ''required'') of
                     Inl e \<Rightarrow> (Some e, h)
                   | Inr r \<Rightarrow> (None, heap_setitem parameters (lit ''required'') r h))
                else (None, h))
         in case raised of
              Some e \<Rightarrow> (Inl e, h)
            | None \<Rightarrow>
                (if dict_get (heap_dict h self_schema) (lit ''additionalProperties'') VNone \<noteq> VNone
                 then
                   (case dict_getitem (heap_dict h self_schema) (lit ''additionalProperties'') of
                      Inl e \<Rightarrow> (Inl e, h)
                    | Inr a \<Rightarrow>
                        (Inr (VRef parameters),
                         heap_setitem parameters (lit ''additionalProperties'') a h))
                 else (Inr (VRef parameters), h)))
      else if dict_contains (heap_dict h self_schema) (lit ''parameters'') then
        (dict_getitem (heap_dict h self_schema) (lit ''parameters''), h)
      else
        (let (parameters, h) = heap_copy self_schema h;
             h = heap_pop parameters (lit ''name'') h;
             h = heap_pop parameters (lit ''title'') h;
             h = heap_pop parameters (lit ''description'') h;
             h = (if \<not> dict_contains (heap_dict h parameters) (lit ''type'')
                  then heap_setitem parameters (lit ''type'') (VStr (lit ''object'')) h
                  else h)
         in (Inr (VRef parameters), h)))"

definition heap_call_normalize_name :: "pyval \<Rightarrow> error + pystr" where
  "heap_call_normalize_name name =
     (case name of VStr s \<Rightarrow> Inr (normalize_name s)
      | _ \<Rightarrow> Inl (AttributeError (lit ''replace'')))"

definition heap_extract_tool_metadata :: "addr \<Rightarrow> heap \<Rightarrow> (error + addr) \<times> heap" where
  "heap_extract_tool_metadata self_schema h =
     (let name = dict_get (heap_dict h self_schema) (lit ''name'')
                   (dict_get (heap_dict h self_schema) (lit ''title'')
                      (VStr (lit ''unnamed_tool'')));
          description = dict_get (heap_dict h self_schema) (lit ''description'') (VStr []);
          (parameters, h) = heap_build_parameters self_schema h
      in case parameters of
           Inl e \<Rightarrow> (Inl e, h)
         | Inr parameters \<Rightarrow>
             (case heap_call_normalize_name name of
                Inl e \<Rightarrow> (Inl e, h)
              | Inr normalized \<Rightarrow>
                  (let (metadata, h) =
                         heap_new (DictObj [(lit ''name'', VStr normalized),
                                            (lit ''description'', description),
                                            (lit ''parameters'', parameters)]) h
                   in (Inr metadata, h))))"

text \<open>
  The two \<^verbatim>\<open>format\<close> functions read the metadata dictionary and allocate the tool
  definition, the inner dictionary of the OpenAI shape first.
\<close>

definition heap_openai_format :: "addr \<Rightarrow> heap \<Rightarrow> (error + addr) \<times> heap" where
  "heap_openai_format metadata h =
     (case dict_getitem (heap_dict h metadata) (lit ''name'') of
        Inl e \<Rightarrow> (Inl e, h)
      | Inr name \<Rightarrow>
     (case dict_getitem (heap_dict h metadata) (lit ''description'') of
        Inl e \<Rightarrow> (Inl e, h)
      | Inr description \<Rightarrow>
     (case dict_getitem (heap_dict h metadata) (lit ''parameters'') of
        Inl e \<Rightarrow> (Inl e, h)
      | Inr parameters \<Rightarrow>
          (let (func, h) = heap_new (DictObj [(lit ''name'', name),
                                              (lit ''description'', description),
                                              (lit ''parameters'', parameters)]) h;
               (tool, h) = heap_new (DictObj [(lit ''type'', VStr (lit ''function'')),
                                              (lit ''function'', VRef func)]) h
           in (Inr tool, h)))))"

definition heap_anthropic_format :: "addr \<Rightarrow> heap \<Rightarrow> (error + addr) \<times> heap" where
  "heap_anthropic_format metadata h =
     (case dict_getitem (heap_dict h metadata) (lit ''name'') of
        Inl e \<Rightarrow> (Inl e, h)
      | Inr name \<Rightarrow>
     (case dict_getitem (heap_dict h metadata) (lit ''description'') of
        Inl e \<Rightarrow> (Inl e, h)
      | Inr description \<Rightarrow>
     (case dict_getitem (heap_dict h metadata) (lit ''parameters'') of
        Inl e \<Rightarrow> (Inl e, h)
      | Inr parameters \<Rightarrow>
          (let (tool, h) = heap_new (DictObj [(lit ''name'', name),
                                              (lit ''description'', description),
                                              (lit ''input_schema'', parameters)]) h
           in (Inr tool, h)))))"

definition heap_convert :: "addr \<Rightarrow> pystr \<Rightarrow> heap \<Rightarrow> (error + addr) \<times> heap" where
  "heap_convert self_schema fmt h =
     (if fmt \<notin> set SUPPORTED_FORMATS then
        (Inl (ValueError (lit ''Unsupported format: '' @ fmt @ lit ''. Supported formats: ''
                           @ str_join (lit '', '') SUPPORTED_FORMATS)), h)
      else
        (case heap_extract_tool_metadata self_schema h of
           (Inl e, h) \<Rightarrow> (Inl e, h)
         | (Inr metadata, h) \<Rightarrow>
             if fmt = lit ''openai'' then heap_openai_format metadata h
             else if fmt = lit ''anthropic'' then heap_anthropic_format metadata h
             else (Inl (ValueError (lit ''Unknown format: '' @ fmt)), h)))"

section \<open>Terms of the properties\<close>

text \<open>The characters a normalized name is made of.\<close>

definition name_char :: "codepoint \<Rightarrow> bool" where
  "name_char c = (isalnum c \<or> c = (cp CHR ''_''))"

text \<open>The document of the weather scenario.\<close>

definition weather_doc :: dict where
  "weather_doc =
     [(lit ''name'', JStr (lit ''Get Weather'')),
      (lit ''description'', JStr (lit ''Gets weather'')),
      (lit ''properties'', JObj [(lit ''city'', JObj [(lit ''type'', JStr (lit ''string''))])]),
      (lit ''required'', JArr [JStr (lit ''city'')])]"

text \<open>
  The regular expression \<^verbatim>\<open>^_?[A-Za-z0-9_]*$\<close> of the specification: an optional underscore,
  then ASCII letters, ASCII digits and underscores up to the end of the string.
\<close>

definition re_word_char :: "codepoint \<Rightarrow> bool" where
  "re_word_char c =
     ((cp CHR ''A'' \<le> c \<and> c \<le> cp CHR ''Z'') \<or> (cp CHR ''a'' \<le> c \<and> c \<le> cp CHR ''z'')
      \<or> (cp CHR ''0'' \<le> c \<and> c \<le> cp CHR ''9'') \<or> c = cp CHR ''_'')"

definition matches_name_re :: "pystr \<Rightarrow> bool" where
  "matches_name_re s =
     (list_all re_word_char s
      \<or> (case s of [] \<Rightarrow> False | c # r \<Rightarrow> c = (cp CHR ''_'') \<and> list_all re_word_char r))"

definition isascii :: "codepoint \<Rightarrow> bool" where
  "isascii c = (c < 128)"

text \<open>
  The extractor as the specification words it. The name comes from the document's
  \<^verbatim>\<open>name\<close> field, else from its \<^verbatim>\<open>title\<close> field, else it is the literal "unnamed_tool".
\<close>

definition name_source :: "dict \<Rightarrow> json" where
  "name_source doc =
     (case map_of doc (lit ''name'') of Some n \<Rightarrow> n
      | None \<Rightarrow>
          (case map_of doc (lit ''title'') of
             Some t \<Rightarrow> t
           | None \<Rightarrow> JStr (lit ''unnamed_tool'')))"

text \<open>
  Path 1: type "object" and the document's properties; \<^verbatim>\<open>required\<close> copied if present;
  \<^verbatim>\<open>additionalProperties\<close> copied if present and not null.
\<close>

definition spec_path1_parameters :: "dict \<Rightarrow> dict" where
  "spec_path1_parameters doc =
     [(lit ''type'', JStr (lit ''object''))]
     @ (case map_of doc (lit ''properties'') of Some p \<Rightarrow> [(lit ''properties'', p)] | None \<Rightarrow> [])
     @ (case map_of doc (lit ''required'') of Some r \<Rightarrow> [(lit ''required'', r)] | None \<Rightarrow> [])
     @ (case map_of doc (lit ''additionalProperties'') of
          Some a \<Rightarrow> (if a = JNull then [] else [(lit ''additionalProperties'', a)])
        | None \<Rightarrow> [])"

text \<open>
  Path 3: all keys of the document except \<^verbatim>\<open>name\<close>, \<^verbatim>\<open>title\<close> and \<^verbatim>\<open>description\<close>; if the
  result has no \<^verbatim>\<open>type\<close> key, \<^verbatim>\<open>type\<close> is set to "object".
\<close>

definition spec_path3_parameters :: "dict \<Rightarrow> dict" where
  "spec_path3_parameters doc =
     (let kept = filter (\<lambda>(k, v). k \<noteq> lit ''name'' \<and> k \<noteq> lit ''title''
                                    \<and> k \<noteq> lit ''description'') doc
      in if map_of kept (lit ''type'') = None
         then kept @ [(lit ''type'', JStr (lit ''object''))] else kept)"

text \<open>
  The defects of a tool definition as the specification lists them, one list per check;
  a check that does not apply, or that passes, contributes no defect.
\<close>

definition is_str :: "json \<Rightarrow> bool" where
  "is_str v = (case v of JStr _ \<Rightarrow> True | _ \<Rightarrow> False)"

definition is_dict :: "json \<Rightarrow> bool" where
  "is_dict v = (case v of JObj _ \<Rightarrow> True | _ \<Rightarrow> False)"

text \<open>The name must exist, be a string, and be non-empty.\<close>

definition name_defects :: "pystr \<Rightarrow> dict \<Rightarrow> pystr list" where
  "name_defects owner d =
     (case map_of d (lit ''name'') of
        None \<Rightarrow> [owner @ lit '' must have a 'name' field'']
      | Some (JStr s) \<Rightarrow> (if s = [] then [owner @ lit '' 'name' cannot be empty''] else [])
      | Some _ \<Rightarrow> [owner @ lit '' 'name' must be a string''])"

text \<open>The description, if present, must be a string.\<close>

definition description_defects :: "pystr \<Rightarrow> dict \<Rightarrow> pystr list" where
  "description_defects owner d =
     (case map_of d (lit ''description'') of
        None \<Rightarrow> []
      | Some (JStr _) \<Rightarrow> []
      | Some _ \<Rightarrow> [owner @ lit '' 'description' must be a string''])"

text \<open>
  The parameters must exist and be a mapping; if a mapping, its type must equal "object"
  and it must contain a \<^verbatim>\<open>properties\<close> key.
\<close>

definition openai_parameters_defects :: "dict \<Rightarrow> pystr list" where
  "openai_parameters_defects func =
     (case map_of func (lit ''parameters'') of
        None \<Rightarrow> [lit ''Function must have a 'parameters' field'']
      | Some (JObj params) \<Rightarrow>
          (if map_of params (lit ''type'') = Some (JStr (lit ''object'')) then []
           else [lit ''Function parameters 'type' must be '' @ quoted (lit ''object'')])
          @ (if map_of params (lit ''properties'') = None
             then [lit ''Function parameters must have '' @ quoted (lit ''properties'')]
             else [])
      | Some _ \<Rightarrow> [lit ''Function 'parameters' must be a dictionary''])"

definition anthropic_input_schema_defects :: "dict \<Rightarrow> pystr list" where
  "anthropic_input_schema_defects tool =
     (case map_of tool (lit ''input_schema'') of
        None \<Rightarrow> [lit ''Tool must have an 'input_schema' field'']
      | Some (JObj schema) \<Rightarrow>
          (if map_of schema (lit ''type'') = Some (JStr (lit ''object'')) then []
           else [lit ''Tool input_schema 'type' must be '' @ quoted (lit ''object'')])
          @ (if map_of schema (lit ''properties'') = None
             then [lit ''Tool input_schema must have '' @ quoted (lit ''properties'')]
             else [])
      | Some _ \<Rightarrow> [lit ''Tool 'input_schema' must be a dictionary''])"

text \<open>
  The type must equal "function"; the \<^verbatim>\<open>function\<close> key must exist and be a mapping, and
  only then can the function's name, description and parameters be checked.
\<close>

definition openai_defects :: "dict \<Rightarrow> pystr list" where
  "openai_defects t =
     (if map_of t (lit ''type'') = Some (JStr (lit ''function'')) then []
      else [lit ''Tool 'type' must be '' @ quoted (lit ''function'')])
     @ (case map_of t (lit ''function'') of
          None \<Rightarrow> [lit ''Tool must have a 'function' field'']
        | Some (JObj f) \<Rightarrow>
            name_defects (lit ''Function'') f @ description_defects (lit ''Function'') f
            @ openai_parameters_defects f
        | Some _ \<Rightarrow> [quoted (lit ''function'') @ lit '' must be a dictionary''])"

definition anthropic_defects :: "dict \<Rightarrow> pystr list" where
  "anthropic_defects t =
     name_defects (lit ''Tool'') t @ description_defects (lit ''Tool'') t
     @ anthropic_input_schema_defects t"

text \<open>
  The metadata that the extractor returns for the document \<^verbatim>\<open>{"name": "x"}\<close>, and its two
  tool definitions.
\<close>

definition bare_metadata :: dict where
  "bare_metadata =
     [(lit ''name'', JStr (lit ''x'')),
      (lit ''description'', JStr []),
      (lit ''parameters'', JObj [(lit ''type'', JStr (lit ''object''))])]"

definition bare_openai_tool :: json where
  "bare_openai_tool =
     JObj [(lit ''type'', JStr (lit ''function'')),
           (lit ''function'', JObj bare_metadata)]"

definition bare_anthropic_tool :: json where
  "bare_anthropic_tool =
     JObj [(lit ''name'', JStr (lit ''x'')),
           (lit ''description'', JStr []),
           (lit ''input_schema'', JObj [(lit ''type'', JStr (lit ''object''))])]"

text \<open>Tool definitions with several defects each.\<close>

definition broken_openai_tool :: json where
  "broken_openai_tool =
     JObj [(lit ''type'', JStr (lit ''tool'')),
           (lit ''function'',
            JObj [(lit ''name'', JStr []),
                  (lit ''description'', JInt 5),
                  (lit ''parameters'', JObj [(lit ''type'', JStr (lit ''array''))])])]"

definition broken_anthropic_tool :: json where
  "broken_anthropic_tool = JObj [(lit ''description'', JNull)]"

text \<open>Metadata that validates: the result of extracting the weather document.\<close>

definition weather_metadata :: dict where
  "weather_metadata =
     [(lit ''name'', JStr (lit ''Get_Weather'')),
      (lit ''description'', JStr (lit ''Gets weather'')),
      (lit ''parameters'',
       JObj [(lit ''type'', JStr (lit ''object'')),
             (lit ''properties'', JObj [(lit ''city'', JObj [(lit ''type'', JStr (lit ''string''))])]),
             (lit ''required'', JArr [JStr (lit ''city'')])])]"

text \<open>
  A tool whose parameters carry a \<^verbatim>\<open>name\<close> of their own, in both shapes.
\<close>

definition shadowed_parameters :: dict where
  "shadowed_parameters =
     [(lit ''type'', JStr (lit ''object'')), (lit ''properties'', JObj []),
      (lit ''name'', JStr (lit ''inner''))]"

definition shadowed_openai_tool :: dict where
  "shadowed_openai_tool =
     [(lit ''type'', JStr (lit ''function'')),
      (lit ''function'',
       JObj [(lit ''name'', JStr (lit ''outer'')),
             (lit ''description'', JStr (lit ''d'')),
             (lit ''parameters'', JObj shadowed_parameters)])]"

definition shadowed_anthropic_tool :: dict where
  "shadowed_anthropic_tool =
     [(lit ''name'', JStr (lit ''outer'')),
      (lit ''description'', JStr (lit ''d'')),
      (lit ''input_schema'', JObj shadowed_parameters)]"

text \<open>
  A store leaves the objects of an earlier store unchanged when the earlier store is its
  initial segment: every address that was allocated holds the same object as before.
\<close>

definition unchanged :: "heap \<Rightarrow> heap \<Rightarrow> bool" where
  "unchanged h h' = (take (length h) h' = h)"

text \<open>
  A store with the document \<^verbatim>\<open>{"title": "my tool", "enum": []}\<close> at address 0 and its
  empty list at address 1.
\<close>

definition titled_heap :: heap where
  "titled_heap =
     [DictObj [(lit ''title'', VStr (lit ''my tool'')), (lit ''enum'', VRef 1)], ListObj []]"

text \<open>
  The tree that a value of the store stands for, read to a given depth: a reference is
  followed to its object, whose components are read in turn. A tree deeper than the given
  depth, or a reference to an address that is not allocated, has no reading.
\<close>

fun read_tree :: "nat \<Rightarrow> heap \<Rightarrow> pyval \<Rightarrow> json option"
  and read_items :: "nat \<Rightarrow> heap \<Rightarrow> (pystr \<times> pyval) list \<Rightarrow> dict option"
  and read_elems :: "nat \<Rightarrow> heap \<Rightarrow> pyval list \<Rightarrow> json list option"
where
  "read_tree n h VNone = Some JNull"
| "read_tree n h (VBool b) = Some (JBool b)"
| "read_tree n h (VInt i) = Some (JInt i)"
| "read_tree n h (VFloat x) = Some (JFloat x)"
| "read_tree n h (VStr s) = Some (JStr s)"
| "read_tree 0 h (VRef a) = None"
| "read_tree (Suc n) h (VRef a) =
     (if a < length h then
        (case h ! a of
           DictObj d \<Rightarrow> map_option JObj (read_items n h d)
         | ListObj xs \<Rightarrow> map_option JArr (read_elems n h xs))
      else None)"
| "read_items n h [] = Some []"
| "read_items n h ((k, v) # d) =
     (case read_tree n h v of
        None \<Rightarrow> None
      | Some j \<Rightarrow> map_option ((#) (k, j)) (read_items n h d))"
| "read_elems n h [] = Some []"
| "read_elems n h (v # vs) =
     (case read_tree n h v of
        None \<Rightarrow> None
      | Some j \<Rightarrow> map_option ((#) j) (read_elems n h vs))"

text \<open>
  The items of the parameters dictionary that the extractor leaves in the store, on path 1
  and on path 3, from the items of the document.
\<close>

definition heap_path1_items :: "(pystr \<times> pyval) list \<Rightarrow> (pystr \<times> pyval) list" where
  "heap_path1_items d =
     [(lit ''type'', VStr (lit ''object''))]
     @ (case map_of d (lit ''properties'') of Some p \<Rightarrow> [(lit ''properties'', p)] | None \<Rightarrow> [])
     @ (case map_of d (lit ''required'') of Some r \<Rightarrow> [(lit ''required'', r)] | None \<Rightarrow> [])
     @ (case map_of d (lit ''additionalProperties'') of
          Some a \<Rightarrow> (if a = VNone then [] else [(lit ''additionalProperties'', a)])
        | None \<Rightarrow> [])"

definition heap_path3_items :: "(pystr \<times> pyval) list \<Rightarrow> (pystr \<times> pyval) list" where
  "heap_path3_items d =
     (let kept = filter (\<lambda>(k, v). k \<noteq> lit ''name'' \<and> k \<noteq> lit ''title''
                                    \<and> k \<noteq> lit ''description'') d
      in if map_of kept (lit ''type'') = None
         then kept @ [(lit ''type'', VStr (lit ''object''))] else kept)"

section \<open>Literals\<close>

lemma cp_eq_iff [simp]: "cp a = cp b \<longleftrightarrow> a = b"
  by (simp add: cp_def)

lemma lit_eq_iff [simp]: "lit a = lit b \<longleftrightarrow> a = b"
  by (simp add: lit_def inj_map_eq_map inj_on_def)

lemma lit_Nil [simp]: "lit [] = []"
  by (simp add: lit_def)

lemma lit_eq_Nil [simp]: "lit a = [] \<longleftrightarrow> a = []"
  by (simp add: lit_def)

lemma lit_append: "lit a @ lit b = lit (a @ b)"
  by (simp add: lit_def)

lemma cp_less_256: "cp c < 256"
  by (simp add: cp_def)

section \<open>Properties of name normalization\<close>

lemmas char_eval =
  cp_def lit_def isalnum_def isdigit_def in_ranges_def alnum_latin_def digit_latin_def

lemma not_alnum_replaced: "\<not> isalnum (cp CHR '' '')" "\<not> isalnum (cp CHR ''-'')"
  by (simp_all add: char_eval)

lemma not_digit_underscore: "\<not> isdigit (cp CHR ''_'')"
  by (simp add: char_eval)

lemma not_digit_fallback: "\<not> isdigit (hd (lit ''unnamed_tool''))"
  by (simp add: char_eval)

lemma name_char_not_replaced: "name_char c \<Longrightarrow> c \<noteq> cp CHR '' '' \<and> c \<noteq> cp CHR ''-''"
  using not_alnum_replaced by (auto simp: name_char_def)

lemma name_char_fallback: "list_all name_char (lit ''unnamed_tool'')"
  by (simp add: name_char_def char_eval)

lemma normalize_name_unfold:
  "normalize_name s =
     (let n = filter name_char
                (str_replace (str_replace s (cp CHR '' '') (cp CHR ''_''))
                   (cp CHR ''-'') (cp CHR ''_''))
      in if n \<noteq> [] then (if isdigit (hd n) then cp CHR ''_'' # n else n)
         else lit ''unnamed_tool'')"
proof -
  have "name_char = (\<lambda>c. isalnum c \<or> c = cp CHR ''_'')"
    by (simp add: name_char_def fun_eq_iff)
  moreover have "lit ''_'' = [cp CHR ''_'']"
    by (simp add: lit_def)
  ultimately show ?thesis
    by (simp add: normalize_name_def Let_def)
qed

lemma normalize_name_chars: "list_all name_char (normalize_name s)"
proof -
  have "name_char (cp CHR ''_'')" by (simp add: name_char_def)
  then show ?thesis
    using name_char_fallback
    by (simp add: normalize_name_unfold Let_def list_all_iff)
qed

lemma normalize_name_nonempty: "normalize_name s \<noteq> []"
  by (simp add: normalize_name_unfold Let_def)

lemma normalize_name_head: "\<not> isdigit (hd (normalize_name s))"
  using not_digit_underscore not_digit_fallback
  by (simp add: normalize_name_unfold Let_def)

lemma normalize_name_fixed:
  assumes "list_all name_char t" and "t \<noteq> []" and "\<not> isdigit (hd t)"
  shows "normalize_name t = t"
proof -
  have "str_replace (str_replace t (cp CHR '' '') (cp CHR ''_'')) (cp CHR ''-'') (cp CHR ''_'')
          = t"
    using assms(1) name_char_not_replaced
    by (induction t) (auto simp: str_replace_def)
  moreover have "filter name_char t = t"
    using assms(1) by (induction t) auto
  ultimately show ?thesis
    using assms(2,3) by (simp add: normalize_name_unfold Let_def)
qed

text \<open>
  Claim C6. Name normalization is idempotent: normalizing a normalized name gives the same
  name again, for every string of code points.
\<close>

theorem normalize_name_idempotent:
  "normalize_name (normalize_name s) = normalize_name s"
  by (rule normalize_name_fixed
        [OF normalize_name_chars normalize_name_nonempty normalize_name_head])

text \<open>
  Claim C5, as stated, fails: \<^verbatim>\<open>str.isalnum\<close> accepts letters beyond ASCII, so the name
  made of the single code point 233 (e with acute accent) is kept as it is and does not
  match the regular expression.
\<close>

theorem normalize_name_regex_counterexample:
  "normalize_name [233] = [233] \<and> \<not> matches_name_re (normalize_name [233])"
  by (simp add: normalize_name_def str_replace_def matches_name_re_def re_word_char_def
      char_eval)

lemma ascii_name_char: "isascii c \<Longrightarrow> name_char c \<Longrightarrow> re_word_char c"
  by (auto simp: isascii_def name_char_def re_word_char_def char_eval)

lemma str_replace_set: "set (str_replace s old new) \<subseteq> set s \<union> {new}"
  by (auto simp: str_replace_def)

lemma normalize_name_cases:
  obtains n where "set n \<subseteq> set s \<union> {cp CHR ''_''}"
    and "normalize_name s = n \<or> normalize_name s = cp CHR ''_'' # n
         \<or> normalize_name s = lit ''unnamed_tool''"
proof -
  define r where
    "r = str_replace (str_replace s (cp CHR '' '') (cp CHR ''_'')) (cp CHR ''-'') (cp CHR ''_'')"
  define n where "n = filter name_char r"
  have "set r \<subseteq> set s \<union> {cp CHR ''_''}"
    unfolding r_def using str_replace_set [of s "cp CHR '' ''" "cp CHR ''_''"]
      str_replace_set [of "str_replace s (cp CHR '' '') (cp CHR ''_'')" "cp CHR ''-''"
        "cp CHR ''_''"]
    by blast
  then have "set n \<subseteq> set s \<union> {cp CHR ''_''}"
    unfolding n_def by auto
  moreover have "normalize_name s =
      (if n \<noteq> [] then (if isdigit (hd n) then cp CHR ''_'' # n else n)
       else lit ''unnamed_tool'')"
    unfolding normalize_name_unfold Let_def n_def r_def by simp
  ultimately show ?thesis using that by presburger
qed

lemma normalize_name_isascii:
  assumes "list_all isascii s"
  shows "list_all isascii (normalize_name s)"
proof -
  obtain n where n: "set n \<subseteq> set s \<union> {cp CHR ''_''}"
    and c: "normalize_name s = n \<or> normalize_name s = cp CHR ''_'' # n
            \<or> normalize_name s = lit ''unnamed_tool''"
    by (rule normalize_name_cases)
  have u: "isascii (cp CHR ''_'')" by (simp add: isascii_def cp_def)
  with n assms have "list_all isascii n" unfolding list_all_iff by blast
  moreover have "list_all isascii (lit ''unnamed_tool'')"
    by (simp add: isascii_def cp_def lit_def)
  ultimately show ?thesis using c u by (elim disjE) simp_all
qed

lemma normalize_name_ascii:
  assumes "list_all isascii s"
  shows "list_all re_word_char (normalize_name s)"
  using normalize_name_isascii [OF assms] normalize_name_chars [of s] ascii_name_char
  unfolding list_all_iff by blast

lemma normalize_name_fallback:
  assumes "\<forall>c\<in>set s. \<not> name_char c \<and> c \<noteq> cp CHR '' '' \<and> c \<noteq> cp CHR ''-''"
  shows "normalize_name s = lit ''unnamed_tool''"
proof -
  have "filter name_char
          (str_replace (str_replace s (cp CHR '' '') (cp CHR ''_'')) (cp CHR ''-'')
             (cp CHR ''_'')) = []"
    using assms by (induction s) (auto simp: str_replace_def name_char_def)
  then show ?thesis by (simp add: normalize_name_unfold Let_def)
qed

text \<open>
  Claim C5, amended. For every string of code points, each character of the normalized
  name is an underscore or alphanumeric in the sense of \<^verbatim>\<open>str.isalnum\<close>; the name is never
  empty and its first character is never a digit (in the sense of \<^verbatim>\<open>str.isdigit\<close>, which
  includes the ASCII digits). When the input is ASCII the name matches
  \<^verbatim>\<open>^_?[A-Za-z0-9_]*$\<close>, and when no character of the input survives, the name is
  "unnamed_tool".
\<close>

theorem normalize_name_shape:
  "list_all name_char (normalize_name s)
   \<and> normalize_name s \<noteq> []
   \<and> \<not> isdigit (hd (normalize_name s))
   \<and> (list_all isascii s \<longrightarrow> matches_name_re (normalize_name s))
   \<and> ((\<forall>c\<in>set s. \<not> name_char c \<and> c \<noteq> cp CHR '' '' \<and> c \<noteq> cp CHR ''-'')
        \<longrightarrow> normalize_name s = lit ''unnamed_tool'')"
  using normalize_name_chars normalize_name_nonempty normalize_name_head
    normalize_name_ascii normalize_name_fallback
  by (simp add: matches_name_re_def)

theorem normalize_name_shape_witness:
  "list_all isascii (lit ''9 lives-x!'')
   \<and> normalize_name (lit ''9 lives-x!'') = lit ''_9_lives_x''
   \<and> matches_name_re (normalize_name (lit ''9 lives-x!''))
   \<and> \<not> name_char (cp CHR ''!'') \<and> \<not> name_char (cp CHR ''?'')
   \<and> normalize_name (lit ''!?'') = lit ''unnamed_tool''
   \<and> normalize_name [1635, 97, 98, 99, 32, 21517] = [95, 1635, 97, 98, 99, 95, 21517]
   \<and> list_all name_char (normalize_name [1635, 97, 98, 99, 32, 21517])"
proof -
  have a: "list_all isascii (lit ''9 lives-x!'')"
    by (simp add: isascii_def cp_def lit_def)
  have b: "\<forall>c\<in>set (lit ''!?''). \<not> name_char c \<and> c \<noteq> cp CHR '' '' \<and> c \<noteq> cp CHR ''-''"
    by (simp add: name_char_def char_eval)
  have c: "normalize_name (lit ''9 lives-x!'') = lit ''_9_lives_x''"
    by (simp add: normalize_name_def str_replace_def char_eval)
  have "isalnum 1635" "isdigit 1635" "isalnum 21517" "\<not> isdigit 21517"
    by (simp_all add: isalnum_def isdigit_def in_ranges_def alnum_wide_def digit_wide_def)
  then have d:
    "normalize_name [1635, 97, 98, 99, 32, 21517] = [95, 1635, 97, 98, 99, 95, 21517]"
    by (simp add: normalize_name_def str_replace_def cp_def lit_def)
       (simp add: isalnum_def in_ranges_def alnum_latin_def)
  from a b c d normalize_name_shape [of "lit ''9 lives-x!''"]
    normalize_name_shape [of "lit ''!?''"]
    normalize_name_shape [of "[1635, 97, 98, 99, 32, 21517]"]
  show ?thesis by (simp add: lit_def)
qed

section \<open>Properties of the converter\<close>

lemma normalize_get_weather: "normalize_name (lit ''Get Weather'') = lit ''Get_Weather''"
  by (simp add: normalize_name_def str_replace_def char_eval)

text \<open>
  Claim C4. Converting the weather document (name "Get Weather", description
  "Gets weather", one string property "city", which is required) to the OpenAI format
  returns the function tool named "Get_Weather" with that description and the parameters
  object made of type "object", the properties and the required list.
\<close>

theorem convert_weather_openai:
  "convert weather_doc (lit ''openai'') =
     Inr (JObj [(lit ''type'', JStr (lit ''function'')),
                (lit ''function'',
                 JObj [(lit ''name'', JStr (lit ''Get_Weather'')),
                       (lit ''description'', JStr (lit ''Gets weather'')),
                       (lit ''parameters'',
                        JObj [(lit ''type'', JStr (lit ''object'')),
                              (lit ''properties'',
                               JObj [(lit ''city'', JObj [(lit ''type'', JStr (lit ''string''))])]),
                              (lit ''required'', JArr [JStr (lit ''city'')])])])])"
  by (simp add: convert_def SUPPORTED_FORMATS_def extract_tool_metadata_def
      build_parameters_def weather_doc_def and_then_def dict_contains_def dict_get_def
      dict_getitem_def call_normalize_name_def normalize_get_weather openai_format_def)

text \<open>
  Claim C8. For every schema document and every format string other than "openai" and
  "anthropic", \<^verbatim>\<open>convert\<close> raises the unsupported-format error (a \<^verbatim>\<open>ValueError\<close> whose
  message names the format and the supported ones) and returns no tool definition.
\<close>

theorem convert_unsupported_format:
  "fmt \<noteq> lit ''openai'' \<Longrightarrow> fmt \<noteq> lit ''anthropic'' \<Longrightarrow>
   convert schema fmt =
     Inl (ValueError (lit ''Unsupported format: '' @ fmt
                       @ lit ''. Supported formats: openai, anthropic''))
   \<and> (\<forall>tool. convert schema fmt \<noteq> Inr tool)"
  by (simp add: convert_def SUPPORTED_FORMATS_def lit_append)

theorem convert_unsupported_format_witness:
  "lit ''bogus'' \<noteq> lit ''openai'' \<and> lit ''bogus'' \<noteq> lit ''anthropic'' \<and>
   convert weather_doc (lit ''bogus'') =
     Inl (ValueError (lit ''Unsupported format: bogus. Supported formats: openai, anthropic''))"
  using convert_unsupported_format [of "lit ''bogus''" weather_doc]
  by (simp add: lit_append)

section \<open>Properties of the metadata extractor\<close>

lemma dict_contains_map_of: "dict_contains d k \<longleftrightarrow> map_of d k \<noteq> None"
  by (simp add: dict_contains_def map_of_eq_None_iff)

lemma dict_setitem_absent: "map_of d k = None \<Longrightarrow> dict_setitem d k v = d @ [(k, v)]"
  by (induction d) (auto split: if_splits)

lemma map_of_dict_setitem:
  "map_of (dict_setitem d k v) k' = (if k' = k then Some v else map_of d k')"
  by (induction d) auto

lemma map_of_dict_pop:
  "map_of (dict_pop d k) k' = (if k' = k then None else map_of d k')"
  by (induction d) (auto simp: dict_pop_def)

lemma build_parameters_path1:
  assumes "dict_contains schema (lit ''properties'')"
  shows "build_parameters schema = Inr (JObj (spec_path1_parameters schema))"
proof -
  from assms obtain p where p: "map_of schema (lit ''properties'') = Some p"
    by (auto simp: dict_contains_map_of)
  show ?thesis
    using assms p
    by (cases "map_of schema (lit ''required'')"; cases "map_of schema (lit ''additionalProperties'')")
       (simp_all add: build_parameters_def spec_path1_parameters_def dict_contains_map_of
          dict_get_def dict_getitem_def and_then_def)
qed

lemma build_parameters_path3:
  assumes "\<not> dict_contains schema (lit ''properties'')" and "\<not> dict_contains schema (lit ''parameters'')"
  shows "build_parameters schema = Inr (JObj (spec_path3_parameters schema))"
proof -
  have f: "dict_pop (dict_pop (dict_pop (dict_copy schema) (lit ''name'')) (lit ''title'')) (lit ''description'')
     = filter (\<lambda>(k, v). k \<noteq> lit ''name'' \<and> k \<noteq> lit ''title'' \<and> k \<noteq> lit ''description'') schema"
    unfolding dict_pop_def dict_copy_def filter_filter
    by (rule filter_cong) auto
  show ?thesis
    using assms
    by (simp add: build_parameters_def f spec_path3_parameters_def Let_def
        dict_contains_map_of dict_setitem_absent)
qed

lemma extract_tool_metadata_result:
  assumes "build_parameters schema = Inr parameters"
  shows "extract_tool_metadata schema =
     (case name_source schema of
        JStr s \<Rightarrow> Inr [(lit ''name'', JStr (normalize_name s)),
                      (lit ''description'', dict_get schema (lit ''description'') (JStr [])),
                      (lit ''parameters'', parameters)]
      | _ \<Rightarrow> Inl (AttributeError (lit ''replace'')))"
  using assms
  by (simp add: extract_tool_metadata_def name_source_def dict_get_def and_then_def
      call_normalize_name_def split: option.splits json.splits)

lemma spec_path3_type:
  "dict_get (spec_path3_parameters m) (lit ''type'') JNull =
     (case map_of m (lit ''type'') of Some t \<Rightarrow> t | None \<Rightarrow> JStr (lit ''object''))"
proof -
  have "map_of (filter (\<lambda>(k, v). k \<noteq> lit ''name'' \<and> k \<noteq> lit ''title'' \<and> k \<noteq> lit ''description'') m) (lit ''type'')
        = map_of m (lit ''type'')"
    by (induction m) auto
  then show ?thesis
    by (cases "map_of m (lit ''type'')") (simp_all add: spec_path3_parameters_def Let_def dict_get_def map_add_def)
qed

text \<open>
  Claim C1, as stated, fails: the document \<^verbatim>\<open>{"type": "string"}\<close> has neither a
  \<^verbatim>\<open>properties\<close> nor a \<^verbatim>\<open>parameters\<close> key, and the extractor keeps its \<^verbatim>\<open>type\<close>, so the
  type of the parameters object is "string".
\<close>

theorem extract_path3_type_counterexample:
  "\<not> dict_contains [(lit ''type'', JStr (lit ''string''))] (lit ''properties'')
   \<and> \<not> dict_contains [(lit ''type'', JStr (lit ''string''))] (lit ''parameters'')
   \<and> extract_tool_metadata [(lit ''type'', JStr (lit ''string''))] =
       Inr [(lit ''name'', JStr (lit ''unnamed_tool'')),
            (lit ''description'', JStr []),
            (lit ''parameters'', JObj [(lit ''type'', JStr (lit ''string''))])]
   \<and> dict_get [(lit ''type'', JStr (lit ''string''))] (lit ''type'') JNull \<noteq> JStr (lit ''object'')"
  by (simp add: extract_tool_metadata_def build_parameters_def dict_contains_map_of dict_get_def
      dict_copy_def dict_pop_def and_then_def call_normalize_name_def normalize_name_def
      str_replace_def char_eval Let_def)

text \<open>
  Claim C1, amended. For every mapping with neither a \<^verbatim>\<open>properties\<close> nor a \<^verbatim>\<open>parameters\<close>
  key, the extractor returns exactly when the name source is a string, and the parameters
  object of its result is the document without \<^verbatim>\<open>name\<close>, \<^verbatim>\<open>title\<close> and \<^verbatim>\<open>description\<close>,
  with \<^verbatim>\<open>type\<close> set to "object" only when the document has no \<^verbatim>\<open>type\<close> key: the type of
  the parameters object is the document's own type when it has one, "object" otherwise.
\<close>

theorem extract_path3:
  "\<not> dict_contains m (lit ''properties'') \<Longrightarrow> \<not> dict_contains m (lit ''parameters'') \<Longrightarrow>
   (\<forall>s. name_source m = JStr s \<longrightarrow>
      extract_tool_metadata m =
        Inr [(lit ''name'', JStr (normalize_name s)),
             (lit ''description'', dict_get m (lit ''description'') (JStr [])),
             (lit ''parameters'', JObj (spec_path3_parameters m))])
   \<and> (\<forall>meta. extract_tool_metadata m = Inr meta \<longrightarrow>
        (\<exists>s. name_source m = JStr s)
        \<and> dict_getitem meta (lit ''parameters'') = Inr (JObj (spec_path3_parameters m)))
   \<and> dict_get (spec_path3_parameters m) (lit ''type'') JNull =
        (case map_of m (lit ''type'') of Some t \<Rightarrow> t | None \<Rightarrow> JStr (lit ''object''))"
  using extract_tool_metadata_result [OF build_parameters_path3, of m] spec_path3_type [of m]
  by (auto simp: dict_getitem_def split: json.splits)

theorem extract_path3_witness:
  "\<not> dict_contains [(lit ''title'', JStr (lit ''my tool'')), (lit ''enum'', JArr [])] (lit ''properties'')
   \<and> \<not> dict_contains [(lit ''title'', JStr (lit ''my tool'')), (lit ''enum'', JArr [])] (lit ''parameters'')
   \<and> name_source [(lit ''title'', JStr (lit ''my tool'')), (lit ''enum'', JArr [])] = JStr (lit ''my tool'')
   \<and> extract_tool_metadata [(lit ''title'', JStr (lit ''my tool'')), (lit ''enum'', JArr [])] =
        Inr [(lit ''name'', JStr (lit ''my_tool'')),
             (lit ''description'', JStr []),
             (lit ''parameters'', JObj [(lit ''enum'', JArr []), (lit ''type'', JStr (lit ''object''))])]"
proof -
  let ?m = "[(lit ''title'', JStr (lit ''my tool'')), (lit ''enum'', JArr [])]"
  have a: "\<not> dict_contains ?m (lit ''properties'')" and b: "\<not> dict_contains ?m (lit ''parameters'')"
    by (simp_all add: dict_contains_map_of)
  have c: "name_source ?m = JStr (lit ''my tool'')" by (simp add: name_source_def)
  have d: "normalize_name (lit ''my tool'') = lit ''my_tool''"
    by (simp add: normalize_name_def str_replace_def char_eval)
  have e: "spec_path3_parameters ?m = [(lit ''enum'', JArr []), (lit ''type'', JStr (lit ''object''))]"
    by (simp add: spec_path3_parameters_def)
  from extract_path3 [OF a b] c d e a b show ?thesis by (simp add: dict_get_def)
qed

text \<open>
  Claim C3. For every schema document with a \<^verbatim>\<open>properties\<close> key the extractor takes
  path 1: the parameters object it builds is type "object" with the document's properties,
  \<^verbatim>\<open>required\<close> copied when present and \<^verbatim>\<open>additionalProperties\<close> copied when present and not
  null; it has no \<^verbatim>\<open>title\<close> key. The extractor returns it with the normalized name whenever
  the name source is a string, and whatever it returns has this parameters object.
\<close>

theorem extract_path1:
  "dict_contains schema (lit ''properties'') \<Longrightarrow>
   build_parameters schema = Inr (JObj (spec_path1_parameters schema))
   \<and> \<not> dict_contains (spec_path1_parameters schema) (lit ''title'')
   \<and> (\<forall>s. name_source schema = JStr s \<longrightarrow>
        extract_tool_metadata schema =
          Inr [(lit ''name'', JStr (normalize_name s)),
               (lit ''description'', dict_get schema (lit ''description'') (JStr [])),
               (lit ''parameters'', JObj (spec_path1_parameters schema))])
   \<and> (\<forall>meta. extract_tool_metadata schema = Inr meta \<longrightarrow>
        dict_getitem meta (lit ''parameters'') = Inr (JObj (spec_path1_parameters schema)))"
proof -
  assume a: "dict_contains schema (lit ''properties'')"
  have t: "\<not> dict_contains (spec_path1_parameters schema) (lit ''title'')"
    by (simp add: spec_path1_parameters_def dict_contains_map_of split: option.splits)
  from extract_tool_metadata_result [OF build_parameters_path1 [OF a]] t
    build_parameters_path1 [OF a]
  show ?thesis by (auto simp: dict_getitem_def split: json.splits)
qed

theorem extract_path1_witness:
  "dict_contains weather_doc (lit ''properties'')
   \<and> name_source weather_doc = JStr (lit ''Get Weather'')
   \<and> extract_tool_metadata weather_doc =
        Inr [(lit ''name'', JStr (lit ''Get_Weather'')),
             (lit ''description'', JStr (lit ''Gets weather'')),
             (lit ''parameters'',
              JObj [(lit ''type'', JStr (lit ''object'')),
                    (lit ''properties'', JObj [(lit ''city'', JObj [(lit ''type'', JStr (lit ''string''))])]),
                    (lit ''required'', JArr [JStr (lit ''city'')])])]"
proof -
  have a: "dict_contains weather_doc (lit ''properties'')"
    by (simp add: dict_contains_def weather_doc_def)
  have c: "name_source weather_doc = JStr (lit ''Get Weather'')"
    by (simp add: name_source_def weather_doc_def)
  have e: "spec_path1_parameters weather_doc =
      [(lit ''type'', JStr (lit ''object'')),
       (lit ''properties'', JObj [(lit ''city'', JObj [(lit ''type'', JStr (lit ''string''))])]),
       (lit ''required'', JArr [JStr (lit ''city'')])]"
    by (simp add: spec_path1_parameters_def weather_doc_def)
  have f: "dict_get weather_doc (lit ''description'') (JStr []) = JStr (lit ''Gets weather'')"
    by (simp add: dict_get_def weather_doc_def)
  from extract_path1 [OF a] a c e f normalize_get_weather show ?thesis by simp
qed

section \<open>Properties of the validators\<close>

lemma dict_get_neq:
  "dict_get d k JNull \<noteq> JStr s \<longleftrightarrow> map_of d k \<noteq> Some (JStr s)"
  by (simp add: dict_get_def split: option.splits)

lemma openai_check_name_defects:
  "openai_check_name f errors = Inr (errors @ name_defects (lit ''Function'') f)"
  by (simp add: openai_check_name_def name_defects_def lit_append dict_contains_map_of dict_getitem_def
      and_then_def split: option.splits json.splits)

lemma openai_check_description_defects:
  "openai_check_description f errors = Inr (errors @ description_defects (lit ''Function'') f)"
  by (simp add: openai_check_description_def description_defects_def dict_contains_map_of
      dict_getitem_def and_then_def lit_append split: option.splits json.splits)

lemma openai_check_parameters_defects:
  "openai_check_parameters f errors = Inr (errors @ openai_parameters_defects f)"
  by (simp add: openai_check_parameters_def openai_parameters_defects_def
      dict_contains_map_of dict_getitem_def dict_get_neq and_then_def Let_def
      split: option.splits json.splits)

lemma anthropic_check_name_defects:
  "anthropic_check_name t errors = Inr (errors @ name_defects (lit ''Tool'') t)"
  by (simp add: anthropic_check_name_def name_defects_def lit_append dict_contains_map_of
      dict_getitem_def and_then_def split: option.splits json.splits)

lemma anthropic_check_description_defects:
  "anthropic_check_description t errors = Inr (errors @ description_defects (lit ''Tool'') t)"
  by (simp add: anthropic_check_description_def description_defects_def
      dict_contains_map_of dict_getitem_def and_then_def lit_append
      split: option.splits json.splits)

lemma anthropic_check_input_schema_defects:
  "anthropic_check_input_schema t errors = Inr (errors @ anthropic_input_schema_defects t)"
  by (simp add: anthropic_check_input_schema_def anthropic_input_schema_defects_def
      dict_contains_map_of dict_getitem_def dict_get_neq and_then_def Let_def
      split: option.splits json.splits)

lemma openai_validate_defects:
  "openai_validate (JObj t) = Inr (openai_defects t = [], openai_defects t)"
proof (cases "map_of t (lit ''function'')")
  case None
  then show ?thesis
    by (simp add: openai_validate_def openai_defects_def dict_contains_map_of dict_get_neq)
next
  case (Some func)
  then show ?thesis
    by (cases func)
       (simp_all add: openai_validate_def openai_defects_def dict_contains_map_of dict_get_neq
          dict_getitem_def and_then_def openai_check_name_defects
          openai_check_description_defects openai_check_parameters_defects)
qed

lemma anthropic_validate_defects:
  "anthropic_validate (JObj t) = Inr (anthropic_defects t = [], anthropic_defects t)"
  by (simp add: anthropic_validate_def anthropic_defects_def and_then_def
      anthropic_check_name_defects anthropic_check_description_defects
      anthropic_check_input_schema_defects)

lemma validate_not_dict:
  "\<not> is_dict tool \<Longrightarrow>
   openai_validate tool = Inr (False, [lit ''Tool must be a dictionary''])
   \<and> anthropic_validate tool = Inr (False, [lit ''Tool must be a dictionary''])"
  by (cases tool) (simp_all add: is_dict_def openai_validate_def anthropic_validate_def)

text \<open>
  Claim C7. Neither validator raises: for every input each returns a pair of a validity
  flag and a defect list, and the flag is true exactly when the list is empty. An input
  that is not a mapping gets the single defect "Tool must be a dictionary" and nothing
  else. For a mapping the defect list is the concatenation, in the order of the checks, of
  the defects of every check: no check is skipped because an earlier one failed, except
  the function-level checks of the OpenAI validator when there is no function mapping to
  look into.
\<close>

theorem validators_report_all_defects:
  "(\<exists>ok errs. openai_validate tool = Inr (ok, errs) \<and> (ok \<longleftrightarrow> errs = []))
   \<and> (\<exists>ok errs. anthropic_validate tool = Inr (ok, errs) \<and> (ok \<longleftrightarrow> errs = []))
   \<and> (\<not> is_dict tool \<longrightarrow>
        openai_validate tool = Inr (False, [lit ''Tool must be a dictionary''])
        \<and> anthropic_validate tool = Inr (False, [lit ''Tool must be a dictionary'']))
   \<and> (\<forall>t. tool = JObj t \<longrightarrow>
        openai_validate tool = Inr (openai_defects t = [], openai_defects t)
        \<and> anthropic_validate tool = Inr (anthropic_defects t = [], anthropic_defects t))"
proof (cases "is_dict tool")
  case True
  then obtain t where "tool = JObj t" by (cases tool) (simp_all add: is_dict_def)
  then show ?thesis
    by (simp add: openai_validate_defects anthropic_validate_defects is_dict_def)
next
  case False
  from validate_not_dict [OF False] False show ?thesis
    by (auto simp: is_dict_def)
qed

theorem validators_report_all_defects_witness:
  "\<not> is_dict (JArr [])
   \<and> openai_validate (JArr []) = Inr (False, [lit ''Tool must be a dictionary''])
   \<and> anthropic_validate (JArr []) = Inr (False, [lit ''Tool must be a dictionary''])
   \<and> openai_validate broken_openai_tool =
       Inr (False, [lit ''Tool 'type' must be '' @ quoted (lit ''function''),
                    lit ''Function 'name' cannot be empty'',
                    lit ''Function 'description' must be a string'',
                    lit ''Function parameters 'type' must be '' @ quoted (lit ''object''),
                    lit ''Function parameters must have '' @ quoted (lit ''properties'')])
   \<and> anthropic_validate broken_anthropic_tool =
       Inr (False, [lit ''Tool must have a 'name' field'',
                    lit ''Tool 'description' must be a string'',
                    lit ''Tool must have an 'input_schema' field''])"
proof -
  have a: "\<not> is_dict (JArr [])" by (simp add: is_dict_def)
  have b: "openai_defects
             [(lit ''type'', JStr (lit ''tool'')),
              (lit ''function'',
               JObj [(lit ''name'', JStr []),
                     (lit ''description'', JInt 5),
                     (lit ''parameters'', JObj [(lit ''type'', JStr (lit ''array''))])])] =
           [lit ''Tool 'type' must be '' @ quoted (lit ''function''),
            lit ''Function 'name' cannot be empty'',
            lit ''Function 'description' must be a string'',
            lit ''Function parameters 'type' must be '' @ quoted (lit ''object''),
            lit ''Function parameters must have '' @ quoted (lit ''properties'')]"
    by (simp add: openai_defects_def name_defects_def lit_append description_defects_def
        openai_parameters_defects_def)
  have c: "anthropic_defects [(lit ''description'', JNull)] =
           [lit ''Tool must have a 'name' field'',
            lit ''Tool 'description' must be a string'',
            lit ''Tool must have an 'input_schema' field'']"
    by (simp add: anthropic_defects_def name_defects_def lit_append description_defects_def
        anthropic_input_schema_defects_def)
  from validators_report_all_defects [of "JArr []"]
    validators_report_all_defects [of broken_openai_tool]
    validators_report_all_defects [of broken_anthropic_tool] a b c
  show ?thesis
    by (simp add: broken_openai_tool_def broken_anthropic_tool_def)
qed

section \<open>Formatting, then validating\<close>

lemma format_results:
  assumes "map_of meta (lit ''name'') = Some n"
    and "map_of meta (lit ''description'') = Some d"
    and "map_of meta (lit ''parameters'') = Some p"
  shows "openai_format meta =
           Inr (JObj [(lit ''type'', JStr (lit ''function'')),
                      (lit ''function'', JObj [(lit ''name'', n), (lit ''description'', d),
                                           (lit ''parameters'', p)])])"
    and "anthropic_format meta =
           Inr (JObj [(lit ''name'', n), (lit ''description'', d), (lit ''input_schema'', p)])"
  using assms
  by (simp_all add: openai_format_def anthropic_format_def dict_getitem_def and_then_def)

lemma name_defects_nil:
  "name_defects owner d = [] \<longleftrightarrow> (\<exists>s. map_of d (lit ''name'') = Some (JStr s) \<and> s \<noteq> [])"
  by (simp add: name_defects_def lit_append split: option.splits json.splits)

lemma description_defects_nil:
  "description_defects owner d = [] \<longleftrightarrow>
     (case map_of d (lit ''description'') of None \<Rightarrow> True | Some v \<Rightarrow> is_str v)"
  by (simp add: description_defects_def is_str_def split: option.splits json.splits)

lemma openai_parameters_defects_nil:
  "openai_parameters_defects f = [] \<longleftrightarrow>
     (\<exists>ps. map_of f (lit ''parameters'') = Some (JObj ps)
           \<and> map_of ps (lit ''type'') = Some (JStr (lit ''object''))
           \<and> map_of ps (lit ''properties'') \<noteq> None)"
  by (simp add: openai_parameters_defects_def split: option.splits json.splits)

lemma anthropic_input_schema_defects_nil:
  "anthropic_input_schema_defects t = [] \<longleftrightarrow>
     (\<exists>ps. map_of t (lit ''input_schema'') = Some (JObj ps)
           \<and> map_of ps (lit ''type'') = Some (JStr (lit ''object''))
           \<and> map_of ps (lit ''properties'') \<noteq> None)"
  by (simp add: anthropic_input_schema_defects_def split: option.splits json.splits)

lemma formatted_openai_defects:
  "openai_defects [(lit ''type'', JStr (lit ''function'')),
                   (lit ''function'', JObj [(lit ''name'', n), (lit ''description'', d),
                                        (lit ''parameters'', p)])] = [] \<longleftrightarrow>
     (\<exists>s. n = JStr s \<and> s \<noteq> []) \<and> is_str d
     \<and> (\<exists>ps. p = JObj ps \<and> map_of ps (lit ''type'') = Some (JStr (lit ''object''))
              \<and> map_of ps (lit ''properties'') \<noteq> None)"
  by (simp add: openai_defects_def name_defects_nil description_defects_nil
      openai_parameters_defects_nil)

lemma formatted_anthropic_defects:
  "anthropic_defects [(lit ''name'', n), (lit ''description'', d), (lit ''input_schema'', p)] = [] \<longleftrightarrow>
     (\<exists>s. n = JStr s \<and> s \<noteq> []) \<and> is_str d
     \<and> (\<exists>ps. p = JObj ps \<and> map_of ps (lit ''type'') = Some (JStr (lit ''object''))
              \<and> map_of ps (lit ''properties'') \<noteq> None)"
  by (simp add: anthropic_defects_def name_defects_nil description_defects_nil
      anthropic_input_schema_defects_nil)

text \<open>
  Claim C2, as stated, fails: for the document \<^verbatim>\<open>{"name": "x"}\<close> the extractor returns
  metadata with the non-empty name "x" whose parameters object has no \<^verbatim>\<open>properties\<close> key,
  and both validators reject the formatted tool definition.
\<close>

theorem format_validate_counterexample:
  "extract_tool_metadata [(lit ''name'', JStr (lit ''x''))] = Inr bare_metadata
   \<and> openai_format bare_metadata = Inr bare_openai_tool
   \<and> openai_validate bare_openai_tool =
       Inr (False, [lit ''Function parameters must have '' @ quoted (lit ''properties'')])
   \<and> anthropic_format bare_metadata = Inr bare_anthropic_tool
   \<and> anthropic_validate bare_anthropic_tool =
       Inr (False, [lit ''Tool input_schema must have '' @ quoted (lit ''properties'')])"
proof -
  have "normalize_name (lit ''x'') = lit ''x''"
    by (simp add: normalize_name_def str_replace_def char_eval)
  then have "extract_tool_metadata [(lit ''name'', JStr (lit ''x''))] = Inr bare_metadata"
    by (simp add: extract_tool_metadata_def build_parameters_def dict_contains_map_of
        dict_get_def dict_copy_def dict_pop_def and_then_def call_normalize_name_def
        bare_metadata_def)
  moreover have "openai_format bare_metadata = Inr bare_openai_tool"
    and "anthropic_format bare_metadata = Inr bare_anthropic_tool"
    by (simp_all add: openai_format_def anthropic_format_def bare_metadata_def
        bare_openai_tool_def bare_anthropic_tool_def dict_getitem_def and_then_def)
  moreover have "openai_validate bare_openai_tool =
      Inr (False, [lit ''Function parameters must have '' @ quoted (lit ''properties'')])"
    by (simp add: bare_openai_tool_def bare_metadata_def openai_validate_defects
        openai_defects_def name_defects_def lit_append description_defects_def
        openai_parameters_defects_def)
  moreover have "anthropic_validate bare_anthropic_tool =
      Inr (False, [lit ''Tool input_schema must have '' @ quoted (lit ''properties'')])"
    by (simp add: bare_anthropic_tool_def anthropic_validate_defects
        anthropic_defects_def name_defects_def lit_append description_defects_def
        anthropic_input_schema_defects_def)
  ultimately show ?thesis by simp
qed

text \<open>
  Claim C2, amended. For every metadata value with the three keys, both formatters return
  a tool definition, and its validation succeeds exactly when the name is a non-empty
  string, the description is a string, and the parameters object is a mapping whose type
  is "object" and which has a \<^verbatim>\<open>properties\<close> key.
\<close>

theorem format_validate:
  "map_of meta (lit ''name'') = Some n \<Longrightarrow>
   map_of meta (lit ''description'') = Some d \<Longrightarrow>
   map_of meta (lit ''parameters'') = Some p \<Longrightarrow>
   (\<exists>tool ok errs.
      openai_format meta = Inr tool \<and> openai_validate tool = Inr (ok, errs)
      \<and> (ok \<longleftrightarrow>
           (\<exists>s. n = JStr s \<and> s \<noteq> []) \<and> is_str d
           \<and> (\<exists>ps. p = JObj ps \<and> map_of ps (lit ''type'') = Some (JStr (lit ''object''))
                    \<and> map_of ps (lit ''properties'') \<noteq> None)))
   \<and> (\<exists>tool ok errs.
        anthropic_format meta = Inr tool \<and> anthropic_validate tool = Inr (ok, errs)
        \<and> (ok \<longleftrightarrow>
             (\<exists>s. n = JStr s \<and> s \<noteq> []) \<and> is_str d
             \<and> (\<exists>ps. p = JObj ps \<and> map_of ps (lit ''type'') = Some (JStr (lit ''object''))
                      \<and> map_of ps (lit ''properties'') \<noteq> None)))"
  by (simp add: format_results openai_validate_defects anthropic_validate_defects
      formatted_openai_defects formatted_anthropic_defects)

theorem format_validate_witness:
  "map_of weather_metadata (lit ''name'') = Some (JStr (lit ''Get_Weather''))
   \<and> map_of weather_metadata (lit ''description'') = Some (JStr (lit ''Gets weather''))
   \<and> (\<exists>tool errs. openai_format weather_metadata = Inr tool
                   \<and> openai_validate tool = Inr (True, errs))
   \<and> (\<exists>tool errs. anthropic_format weather_metadata = Inr tool
                   \<and> anthropic_validate tool = Inr (True, errs))"
proof -
  have a: "map_of weather_metadata (lit ''name'') = Some (JStr (lit ''Get_Weather''))"
    and b: "map_of weather_metadata (lit ''description'') = Some (JStr (lit ''Gets weather''))"
    and c: "map_of weather_metadata (lit ''parameters'') =
      Some (JObj [(lit ''type'', JStr (lit ''object'')),
                  (lit ''properties'', JObj [(lit ''city'', JObj [(lit ''type'', JStr (lit ''string''))])]),
                  (lit ''required'', JArr [JStr (lit ''city'')])])"
    by (simp_all add: weather_metadata_def)
  from format_validate [OF a b c] a b show ?thesis
    by (auto simp: is_str_def)
qed

section \<open>Properties of schema extraction from a tool\<close>

lemma map_of_merge:
  "distinct (map fst other) \<Longrightarrow>
   map_of (fold (\<lambda>(k, v) d'. dict_setitem d' k v) other d) k =
     (case map_of other k of Some v \<Rightarrow> Some v | None \<Rightarrow> map_of d k)"
proof (induction other arbitrary: d)
  case Nil
  then show ?case by simp
next
  case (Cons kv other)
  obtain k' v' where kv: "kv = (k', v')" by (cases kv)
  from Cons.prems kv have d: "distinct (map fst other)" and n: "map_of other k' = None"
    by (simp_all add: map_of_eq_None_iff)
  show ?case
    using Cons.IH [OF d, of "dict_setitem d k' v'"] n
    by (simp add: kv map_of_dict_setitem split: option.splits)
qed

lemma extract_schema_results:
  "map_of t (lit ''function'') = Some (JObj f) \<Longrightarrow> map_of f (lit ''parameters'') = Some (JObj p) \<Longrightarrow>
   openai_extract_schema (JObj t) =
     Inr (fold (\<lambda>(k, v) d'. dict_setitem d' k v) p
            [(lit ''name'', dict_get f (lit ''name'') (JStr [])),
             (lit ''description'', dict_get f (lit ''description'') (JStr []))])"
  "map_of t (lit ''input_schema'') = Some (JObj p) \<Longrightarrow>
   anthropic_extract_schema (JObj t) =
     Inr (fold (\<lambda>(k, v) d'. dict_setitem d' k v) p
            [(lit ''name'', dict_get t (lit ''name'') (JStr [])),
             (lit ''description'', dict_get t (lit ''description'') (JStr []))])"
  by (simp_all add: openai_extract_schema_def anthropic_extract_schema_def call_get_def
      and_then_def dict_get_def)

text \<open>
  Claim C10. In both \<^verbatim>\<open>extract_schema\<close> operations the parameters mapping is merged into
  the result after the tool's name and description were set: every key of the parameters
  mapping is in the reconstructed document with the parameters' value, so an inner
  \<^verbatim>\<open>name\<close> or \<^verbatim>\<open>description\<close> overwrites the tool's own, which is kept only when the
  parameters have no such key.
\<close>

theorem extract_schema_inner_overwrites:
  "distinct (map fst p) \<Longrightarrow>
   (map_of t (lit ''function'') = Some (JObj f) \<and> map_of f (lit ''parameters'') = Some (JObj p) \<longrightarrow>
      (\<exists>schema. openai_extract_schema (JObj t) = Inr schema
         \<and> (\<forall>k v. map_of p k = Some v \<longrightarrow> map_of schema k = Some v)
         \<and> (map_of p (lit ''name'') = None \<longrightarrow>
              map_of schema (lit ''name'') = Some (dict_get f (lit ''name'') (JStr [])))
         \<and> (map_of p (lit ''description'') = None \<longrightarrow>
              map_of schema (lit ''description'') = Some (dict_get f (lit ''description'') (JStr [])))))
   \<and> (map_of t (lit ''input_schema'') = Some (JObj p) \<longrightarrow>
        (\<exists>schema. anthropic_extract_schema (JObj t) = Inr schema
           \<and> (\<forall>k v. map_of p k = Some v \<longrightarrow> map_of schema k = Some v)
           \<and> (map_of p (lit ''name'') = None \<longrightarrow>
                map_of schema (lit ''name'') = Some (dict_get t (lit ''name'') (JStr [])))
           \<and> (map_of p (lit ''description'') = None \<longrightarrow>
                map_of schema (lit ''description'') = Some (dict_get t (lit ''description'') (JStr [])))))"
  by (simp add: extract_schema_results map_of_merge)

theorem extract_schema_inner_overwrites_witness:
  "distinct (map fst shadowed_parameters)
   \<and> map_of shadowed_parameters (lit ''name'') = Some (JStr (lit ''inner''))
   \<and> openai_extract_schema (JObj shadowed_openai_tool) =
       Inr [(lit ''name'', JStr (lit ''inner'')), (lit ''description'', JStr (lit ''d'')),
            (lit ''type'', JStr (lit ''object'')), (lit ''properties'', JObj [])]
   \<and> anthropic_extract_schema (JObj shadowed_anthropic_tool) =
       Inr [(lit ''name'', JStr (lit ''inner'')), (lit ''description'', JStr (lit ''d'')),
            (lit ''type'', JStr (lit ''object'')), (lit ''properties'', JObj [])]"
proof -
  have a: "distinct (map fst shadowed_parameters)"
    and b: "map_of shadowed_parameters (lit ''name'') = Some (JStr (lit ''inner''))"
    by (simp_all add: shadowed_parameters_def)
  have c: "map_of shadowed_openai_tool (lit ''function'') =
      Some (JObj [(lit ''name'', JStr (lit ''outer'')), (lit ''description'', JStr (lit ''d'')),
                  (lit ''parameters'', JObj shadowed_parameters)])"
    and d: "map_of shadowed_anthropic_tool (lit ''input_schema'') = Some (JObj shadowed_parameters)"
    by (simp_all add: shadowed_openai_tool_def shadowed_anthropic_tool_def)
  have e: "openai_extract_schema (JObj shadowed_openai_tool) =
       Inr [(lit ''name'', JStr (lit ''inner'')), (lit ''description'', JStr (lit ''d'')),
            (lit ''type'', JStr (lit ''object'')), (lit ''properties'', JObj [])]"
    and f: "anthropic_extract_schema (JObj shadowed_anthropic_tool) =
       Inr [(lit ''name'', JStr (lit ''inner'')), (lit ''description'', JStr (lit ''d'')),
            (lit ''type'', JStr (lit ''object'')), (lit ''properties'', JObj [])]"
    by (simp_all add: openai_extract_schema_def anthropic_extract_schema_def call_get_def
        and_then_def dict_get_def shadowed_openai_tool_def shadowed_anthropic_tool_def
        shadowed_parameters_def)
  from extract_schema_inner_overwrites [OF a, of shadowed_openai_tool
      "[(lit ''name'', JStr (lit ''outer'')), (lit ''description'', JStr (lit ''d'')),
        (lit ''parameters'', JObj shadowed_parameters)]"] a b c d e f
  show ?thesis by simp
qed

section \<open>The converter leaves its document alone\<close>

lemma unchanged_refl: "unchanged h h"
  by (simp add: unchanged_def)

lemma unchanged_new: "unchanged h h' \<Longrightarrow> unchanged h (snd (heap_new obj h'))"
  by (auto simp: unchanged_def heap_new_def dest: arg_cong [where f = length])

lemma unchanged_length: "unchanged h h' \<Longrightarrow> length h \<le> length h'"
  by (auto simp: unchanged_def dest: arg_cong [where f = length])

lemma heap_new_fresh: "unchanged h h' \<Longrightarrow> length h \<le> fst (heap_new obj h')"
  by (simp add: heap_new_def unchanged_length)

lemma unchanged_setitem:
  "unchanged h h' \<Longrightarrow> length h \<le> a \<Longrightarrow> unchanged h (heap_setitem a k v h')"
  by (simp add: unchanged_def heap_setitem_def)

lemma unchanged_pop:
  "unchanged h h' \<Longrightarrow> length h \<le> a \<Longrightarrow> unchanged h (heap_pop a k h')"
  by (simp add: unchanged_def heap_pop_def)

lemma unchanged_nth: "unchanged h h' \<Longrightarrow> a < length h \<Longrightarrow> h' ! a = h ! a"
  by (metis nth_take unchanged_def)

lemma heap_build_parameters_unchanged:
  "unchanged h (snd (heap_build_parameters a h))"
proof -
  let ?h1 = "snd (heap_new (DictObj []) h)"
  have u1: "unchanged h ?h1" by (rule unchanged_new [OF unchanged_refl])
  have path1: "unchanged h (snd (heap_build_parameters a h))"
    if "dict_contains (heap_dict h a) (lit ''properties'')"
  proof -
    obtain p h2 where n2: "heap_new (DictObj [(lit ''type'', VStr (lit ''object'')),
         (lit ''properties'', dict_get (heap_dict ?h1 a) (lit ''properties'') (VRef (length h)))]) ?h1
       = (p, h2)" by (cases "heap_new (DictObj [(lit ''type'', VStr (lit ''object'')),
         (lit ''properties'', dict_get (heap_dict ?h1 a) (lit ''properties'') (VRef (length h)))]) ?h1")
    from unchanged_new [OF u1] n2 have u2: "unchanged h h2" by (metis snd_conv)
    from heap_new_fresh [OF u1] n2 have f: "length h \<le> p" by (metis fst_conv)
    note s = unchanged_setitem [OF u2 f]
    have s': "unchanged h (heap_setitem p k' v' (heap_setitem p k v h2))" for k v k' v'
      by (rule unchanged_setitem [OF s f])
    show ?thesis
      using that n2 u2 s s'
      by (simp add: heap_build_parameters_def heap_new_def [of "DictObj []"] Let_def
          split: sum.splits)
  qed
  have path3: "unchanged h (snd (heap_build_parameters a h))"
    if "\<not> dict_contains (heap_dict h a) (lit ''properties'')"
      and "\<not> dict_contains (heap_dict h a) (lit ''parameters'')"
  proof -
    obtain p h1 where c: "heap_copy a h = (p, h1)" by (cases "heap_copy a h")
    then have u: "unchanged h h1" and f: "length h \<le> p"
      by (auto simp: heap_copy_def heap_new_def unchanged_def)
    let ?h4 = "heap_pop p (lit ''description'') (heap_pop p (lit ''title'') (heap_pop p (lit ''name'') h1))"
    have u4: "unchanged h ?h4"
      by (intro unchanged_pop u f)
    then have "unchanged h (heap_setitem p (lit ''type'') (VStr (lit ''object'')) ?h4)"
      by (rule unchanged_setitem [OF _ f])
    with u4 show ?thesis
      using that c by (simp add: heap_build_parameters_def Let_def)
  qed
  show ?thesis
  proof (cases "dict_contains (heap_dict h a) (lit ''properties'')")
    case True
    then show ?thesis by (rule path1)
  next
    case False
    show ?thesis
    proof (cases "dict_contains (heap_dict h a) (lit ''parameters'')")
      case True
      with False show ?thesis
        by (simp add: heap_build_parameters_def unchanged_refl)
    next
      case False
      with \<open>\<not> dict_contains (heap_dict h a) (lit ''properties'')\<close> show ?thesis by (rule path3)
    qed
  qed
qed

lemma heap_extract_tool_metadata_unchanged:
  "unchanged h (snd (heap_extract_tool_metadata a h))"
  using heap_build_parameters_unchanged [of h a]
  by (auto simp: heap_extract_tool_metadata_def Let_def split_def unchanged_new
      split: sum.splits)

lemma heap_format_unchanged:
  assumes "unchanged h h'"
  shows "unchanged h (snd (heap_openai_format m h'))"
    and "unchanged h (snd (heap_anthropic_format m h'))"
  using assms
  by (auto simp: heap_openai_format_def heap_anthropic_format_def Let_def split_def
      unchanged_new split: sum.splits)

lemma heap_convert_unchanged: "unchanged h (snd (heap_convert a fmt h))"
  using heap_extract_tool_metadata_unchanged [of h a]
  by (auto simp: heap_convert_def unchanged_refl heap_format_unchanged
      split: prod.splits sum.splits)

text \<open>
  Claim C9. Extraction and conversion have no effect on their input. Whatever the store
  and the address of the document, and for every format, the store after the call has
  every object of the store before the call at its address, unchanged: the document and
  everything reachable from it. All the writes of the extractor go to dictionaries that it
  allocated itself; on path 3 the keys are popped from the copy.
\<close>

theorem extraction_leaves_input_unchanged:
  "unchanged h (snd (heap_extract_tool_metadata a h))
   \<and> unchanged h (snd (heap_convert a fmt h))
   \<and> (\<forall>b < length h.
        snd (heap_extract_tool_metadata a h) ! b = h ! b
        \<and> snd (heap_convert a fmt h) ! b = h ! b)"
  using heap_extract_tool_metadata_unchanged [of h a] heap_convert_unchanged [of h a fmt]
  by (simp add: unchanged_nth)

theorem extraction_leaves_input_unchanged_witness:
  "heap_extract_tool_metadata 0 titled_heap =
     (Inr 3, titled_heap @
        [DictObj [(lit ''enum'', VRef 1), (lit ''type'', VStr (lit ''object''))],
         DictObj [(lit ''name'', VStr (lit ''my_tool'')), (lit ''description'', VStr []),
                  (lit ''parameters'', VRef 2)]])
   \<and> unchanged titled_heap (snd (heap_extract_tool_metadata 0 titled_heap))
   \<and> snd (heap_convert 0 (lit ''openai'') titled_heap) ! 0 =
       DictObj [(lit ''title'', VStr (lit ''my tool'')), (lit ''enum'', VRef 1)]"
proof -
  have "heap_extract_tool_metadata 0 titled_heap =
     (Inr 3, titled_heap @
        [DictObj [(lit ''enum'', VRef 1), (lit ''type'', VStr (lit ''object''))],
         DictObj [(lit ''name'', VStr (lit ''my_tool'')), (lit ''description'', VStr []),
                  (lit ''parameters'', VRef 2)]])"
    by code_simp
  moreover have "(0::nat) < length titled_heap" by (simp add: titled_heap_def)
  moreover have "titled_heap ! 0 = DictObj [(lit ''title'', VStr (lit ''my tool'')), (lit ''enum'', VRef 1)]"
    by (simp add: titled_heap_def)
  ultimately show ?thesis
    using extraction_leaves_input_unchanged [of titled_heap 0 "lit ''openai''"]
    by simp
qed

section \<open>The store model computes what the tree model computes\<close>

lemma read_deeper:
  "read_tree n h v = Some j \<Longrightarrow> read_tree (Suc n) h v = Some j"
  "read_items n h d = Some doc \<Longrightarrow> read_items (Suc n) h d = Some doc"
  "read_elems n h vs = Some js \<Longrightarrow> read_elems (Suc n) h vs = Some js"
proof (induction n h v and n h d and n h vs arbitrary: j and doc and js
    rule: read_tree_read_items_read_elems.induct)
  case (7 n h a)
  then show ?case
    by (cases "h ! a") (auto split: if_splits)
next
  case (9 n h k v d)
  then show ?case by (auto split: option.splits)
next
  case (11 n h v vs)
  then show ?case by (auto split: option.splits)
qed simp_all

lemma read_unchanged:
  "unchanged h h' \<Longrightarrow> read_tree n h v = Some j \<Longrightarrow> read_tree n h' v = Some j"
  "unchanged h h' \<Longrightarrow> read_items n h d = Some doc \<Longrightarrow> read_items n h' d = Some doc"
  "unchanged h h' \<Longrightarrow> read_elems n h vs = Some js \<Longrightarrow> read_elems n h' vs = Some js"
proof (induction n h v and n h d and n h vs arbitrary: j and doc and js
    rule: read_tree_read_items_read_elems.induct)
  case (7 n h a)
  from 7(3,4) have a: "a < length h" by (simp split: if_splits)
  with 7(3) have "a < length h'" and "h' ! a = h ! a"
    using unchanged_length unchanged_nth by fastforce+
  with 7 a show ?case
    by (cases "h ! a") auto
next
  case (9 n h k v d)
  then show ?case by (auto split: option.splits)
next
  case (11 n h v vs)
  then show ?case by (auto split: option.splits)
qed simp_all
lemma heap_dict_append: "a < length h \<Longrightarrow> heap_dict (h @ new) a = heap_dict h a"
  by (simp add: heap_dict_def nth_append)

lemma heap_dict_last: "heap_dict (h @ [DictObj d]) (length h) = d"
  by (simp add: heap_dict_def)

lemma heap_build_parameters_path1:
  assumes "a < length h" and "dict_contains (heap_dict h a) (lit ''properties'')"
  shows "heap_build_parameters a h =
           (Inr (VRef (Suc (length h))),
            h @ [DictObj [], DictObj (heap_path1_items (heap_dict h a))])"
proof -
  from assms(2) obtain p where p: "map_of (heap_dict h a) (lit ''properties'') = Some p"
    by (auto simp: dict_contains_map_of)
  have d: "heap_dict (h @ [x, y]) (Suc (length h)) = (case y of DictObj d \<Rightarrow> d | ListObj _ \<Rightarrow> [])"
    for x y by (simp add: heap_dict_def nth_append)
  have w: "(h @ [x, y])[Suc (length h) := z] = h @ [x, z]" for x y z :: pyobj
    by (simp add: list_update_append)
  show ?thesis
    using assms p
    by (cases "map_of (heap_dict h a) (lit ''required'')";
        cases "map_of (heap_dict h a) (lit ''additionalProperties'')")
       (simp_all add: heap_build_parameters_def heap_new_def heap_setitem_def
          heap_path1_items_def heap_dict_append d w dict_contains_map_of dict_get_def
          dict_getitem_def)
qed

lemma heap_build_parameters_path2:
  assumes "\<not> dict_contains (heap_dict h a) (lit ''properties'')"
    and "map_of (heap_dict h a) (lit ''parameters'') = Some v"
  shows "heap_build_parameters a h = (Inr v, h)"
  using assms
  by (simp add: heap_build_parameters_def dict_contains_map_of dict_getitem_def)

lemma heap_build_parameters_path3:
  assumes "\<not> dict_contains (heap_dict h a) (lit ''properties'')"
    and "\<not> dict_contains (heap_dict h a) (lit ''parameters'')"
  shows "heap_build_parameters a h =
           (Inr (VRef (length h)), h @ [DictObj (heap_path3_items (heap_dict h a))])"
proof -
  have f: "dict_pop (dict_pop (dict_pop (dict_copy d) (lit ''name'')) (lit ''title'')) (lit ''description'')
     = filter (\<lambda>(k, v). k \<noteq> lit ''name'' \<and> k \<noteq> lit ''title'' \<and> k \<noteq> lit ''description'') d"
    for d :: "(pystr \<times> pyval) list"
    unfolding dict_pop_def dict_copy_def filter_filter
    by (rule filter_cong) auto
  have u: "heap_pop (length h) k (h @ [DictObj d]) = h @ [DictObj (dict_pop d k)]" for k d
    by (simp add: heap_pop_def heap_dict_last list_update_append)
  have s: "heap_setitem (length h) k v (h @ [DictObj d]) = h @ [DictObj (dict_setitem d k v)]"
    for k v d by (simp add: heap_setitem_def heap_dict_last list_update_append)
  show ?thesis
    using assms
    by (simp add: heap_build_parameters_def heap_copy_def heap_new_def u s heap_dict_last
        f [symmetric] heap_path3_items_def Let_def dict_contains_map_of dict_setitem_absent)
qed
lemma read_items_lookup:
  "read_items n h d = Some doc \<Longrightarrow>
   (case map_of d k of
      None \<Rightarrow> map_of doc k = None
    | Some v \<Rightarrow> (\<exists>j. read_tree n h v = Some j \<and> map_of doc k = Some j))"
  by (induction d arbitrary: doc) (auto split: option.splits)

lemma read_items_contains:
  "read_items n h d = Some doc \<Longrightarrow> dict_contains doc k \<longleftrightarrow> dict_contains d k"
  using read_items_lookup [of n h d doc k]
  by (auto simp: dict_contains_map_of split: option.splits)

lemma read_items_get:
  assumes "read_items n h d = Some doc" and "read_tree n h dv = Some dj"
  shows "read_tree n h (dict_get d k dv) = Some (dict_get doc k dj)"
  using read_items_lookup [OF assms(1), of k] assms(2)
  by (auto simp: dict_get_def split: option.splits)

lemma read_items_filter:
  "read_items n h d = Some doc \<Longrightarrow>
   read_items n h (filter (\<lambda>(k, v). P k) d) = Some (filter (\<lambda>(k, v). P k) doc)"
  by (induction d arbitrary: doc) (auto split: option.splits)

lemma read_items_append:
  "read_items n h xs = Some a \<Longrightarrow> read_items n h ys = Some b \<Longrightarrow>
   read_items n h (xs @ ys) = Some (a @ b)"
  by (induction xs arbitrary: a) (auto split: option.splits)

lemma read_scalar:
  assumes "read_tree n h v = Some j"
  shows "j = JNull \<longleftrightarrow> v = VNone" and "j = JStr s \<longleftrightarrow> v = VStr s"
  using assms
  by (cases v; cases n; auto split: if_splits pyobj.splits)+

lemma read_null: "read_tree n h v = Some JNull \<longleftrightarrow> v = VNone"
  by (cases v; cases n; auto split: if_splits pyobj.splits)

lemma read_path1_items:
  assumes "read_items n h d = Some doc"
  shows "read_items n h (heap_path1_items d) = Some (spec_path1_parameters doc)"
proof -
  have one: "read_items n h (case map_of d k of Some v \<Rightarrow> [(k, v)] | None \<Rightarrow> [])
      = Some (case map_of doc k of Some j \<Rightarrow> [(k, j)] | None \<Rightarrow> [])" for k
    using read_items_lookup [OF assms, of k] by (auto split: option.splits)
  have ap: "read_items n h
        (case map_of d (lit ''additionalProperties'') of
           Some a \<Rightarrow> (if a = VNone then [] else [(lit ''additionalProperties'', a)])
         | None \<Rightarrow> [])
      = Some (case map_of doc (lit ''additionalProperties'') of
           Some a \<Rightarrow> (if a = JNull then [] else [(lit ''additionalProperties'', a)])
         | None \<Rightarrow> [])"
    using read_items_lookup [OF assms, of "lit ''additionalProperties''"]
    by (auto simp: read_null split: option.splits)
  have ty: "read_items n h [(lit ''type'', VStr (lit ''object''))] = Some [(lit ''type'', JStr (lit ''object''))]"
    by simp
  show ?thesis
    unfolding heap_path1_items_def spec_path1_parameters_def
    by (intro read_items_append ty one ap)
qed

lemma read_path3_items:
  assumes "read_items n h d = Some doc"
  shows "read_items n h (heap_path3_items d) = Some (spec_path3_parameters doc)"
proof -
  let ?P = "\<lambda>k. k \<noteq> lit ''name'' \<and> k \<noteq> lit ''title'' \<and> k \<noteq> lit ''description''"
  have f: "read_items n h (filter (\<lambda>(k, v). ?P k) d) = Some (filter (\<lambda>(k, v). ?P k) doc)"
    by (rule read_items_filter [OF assms])
  have ty: "read_items n h [(lit ''type'', VStr (lit ''object''))] = Some [(lit ''type'', JStr (lit ''object''))]"
    by simp
  have "map_of (filter (\<lambda>(k, v). ?P k) d) (lit ''type'') = None
        \<longleftrightarrow> map_of (filter (\<lambda>(k, v). ?P k) doc) (lit ''type'') = None"
    using read_items_lookup [OF f, of "lit ''type''"] by (auto split: option.splits)
  then show ?thesis
    using f read_items_append [OF f ty]
    by (simp add: heap_path3_items_def spec_path3_parameters_def Let_def)
qed

lemma heap_build_parameters_refines:
  assumes a: "a < length h" and d: "h ! a = DictObj d" and r: "read_items n h d = Some doc"
  shows "\<exists>pv h1 pj. heap_build_parameters a h = (Inr pv, h1) \<and> unchanged h h1
           \<and> build_parameters doc = Inr pj \<and> read_tree (Suc n) h1 pv = Some pj"
proof -
  from a d have hd: "heap_dict h a = d" by (simp add: heap_dict_def)
  show ?thesis
  proof (cases "dict_contains d (lit ''properties'')")
    case True
    let ?h1 = "h @ [DictObj [], DictObj (heap_path1_items d)]"
    have u: "unchanged h ?h1" by (simp add: unchanged_def)
    from read_unchanged(2) [OF u read_path1_items [OF r]]
    have "read_tree (Suc n) ?h1 (VRef (Suc (length h))) = Some (JObj (spec_path1_parameters doc))"
      by (simp add: nth_append)
    moreover from True r have "dict_contains doc (lit ''properties'')"
      by (simp add: read_items_contains)
    ultimately show ?thesis
      using heap_build_parameters_path1 [OF a] True hd u build_parameters_path1 [of doc]
      by auto
  next
    case False
    with r have nd: "\<not> dict_contains doc (lit ''properties'')"
      by (simp add: read_items_contains)
    show ?thesis
    proof (cases "map_of d (lit ''parameters'')")
      case (Some v)
      with read_items_lookup [OF r, of "lit ''parameters''"] obtain j
        where j: "read_tree n h v = Some j" and m: "map_of doc (lit ''parameters'') = Some j"
        by auto
      from m nd have "build_parameters doc = Inr j"
        by (simp add: build_parameters_def dict_contains_map_of dict_getitem_def)
      with heap_build_parameters_path2 [of h a v] False Some hd read_deeper(1) [OF j]
      show ?thesis by (auto simp: unchanged_refl)
    next
      case None
      then have np: "\<not> dict_contains d (lit ''parameters'')" by (simp add: dict_contains_map_of)
      with r have npd: "\<not> dict_contains doc (lit ''parameters'')"
        by (simp add: read_items_contains)
      let ?h1 = "h @ [DictObj (heap_path3_items d)]"
      have u: "unchanged h ?h1" by (simp add: unchanged_def)
      from read_unchanged(2) [OF u read_path3_items [OF r]]
      have "read_tree (Suc n) ?h1 (VRef (length h)) = Some (JObj (spec_path3_parameters doc))"
        by simp
      with heap_build_parameters_path3 [of h a] False np hd u
        build_parameters_path3 [OF nd npd]
      show ?thesis by auto
    qed
  qed
qed

text \<open>
  The store model and the tree model of the extractor agree. When the document at the
  address reads as a tree, the extractor on the store raises the error that the extractor
  on the tree raises, or returns the address of a dictionary that reads as the metadata
  that the extractor on the tree returns.
\<close>

lemma heap_extract_tool_metadata_refines:
  assumes "read_tree (Suc n) h (VRef a) = Some (JObj doc)"
  shows "\<exists>r h'. heap_extract_tool_metadata a h = (r, h') \<and>
           (case r of
              Inl e \<Rightarrow> extract_tool_metadata doc = Inl e
            | Inr m \<Rightarrow>
                (\<exists>meta. extract_tool_metadata doc = Inr meta
                   \<and> read_tree (Suc (Suc n)) h' (VRef m) = Some (JObj meta)))"
proof -
  from assms obtain d where a: "a < length h" and d: "h ! a = DictObj d"
    and r: "read_items n h d = Some doc"
    by (cases "h ! a") (auto split: if_splits)
  from a d have hd: "heap_dict h a = d" by (simp add: heap_dict_def)
  from heap_build_parameters_refines [OF a d r] obtain pv h1 pj
    where b: "heap_build_parameters a h = (Inr pv, h1)" and u: "unchanged h h1"
      and bp: "build_parameters doc = Inr pj" and rp: "read_tree (Suc n) h1 pv = Some pj"
    by blast
  let ?nv = "dict_get d (lit ''name'') (dict_get d (lit ''title'') (VStr (lit ''unnamed_tool'')))"
  let ?nj = "dict_get doc (lit ''name'') (dict_get doc (lit ''title'') (JStr (lit ''unnamed_tool'')))"
  let ?dv = "dict_get d (lit ''description'') (VStr [])"
  let ?dj = "dict_get doc (lit ''description'') (JStr [])"
  have rn: "read_tree n h ?nv = Some ?nj"
    by (intro read_items_get [OF r]) simp
  have rd: "read_tree n h ?dv = Some ?dj"
    by (intro read_items_get [OF r]) simp
  show ?thesis
  proof (cases "\<exists>s. ?nv = VStr s")
    case True
    then obtain s where s: "?nv = VStr s" ..
    with rn have sj: "?nj = JStr s" by simp
    let ?meta = "[(lit ''name'', VStr (normalize_name s)), (lit ''description'', ?dv),
                  (lit ''parameters'', pv)]"
    let ?h' = "h1 @ [DictObj ?meta]"
    have u1: "unchanged h1 ?h'" by (simp add: unchanged_def)
    from read_unchanged(1) [OF u1 rp] have p': "read_tree (Suc n) ?h' pv = Some pj" .
    from read_unchanged(1) [OF u1 read_unchanged(1) [OF u rd]]
    have d': "read_tree (Suc n) ?h' ?dv = Some ?dj" by (rule read_deeper(1))
    from p' d' have "read_tree (Suc (Suc n)) ?h' (VRef (length h1)) =
        Some (JObj [(lit ''name'', JStr (normalize_name s)), (lit ''description'', ?dj),
                    (lit ''parameters'', pj)])"
      by simp
    moreover have "heap_extract_tool_metadata a h = (Inr (length h1), ?h')"
      using b s by (simp add: heap_extract_tool_metadata_def hd heap_call_normalize_name_def
          heap_new_def)
    moreover have "extract_tool_metadata doc =
        Inr [(lit ''name'', JStr (normalize_name s)), (lit ''description'', ?dj), (lit ''parameters'', pj)]"
      using bp sj by (simp add: extract_tool_metadata_def and_then_def call_normalize_name_def)
    ultimately show ?thesis by simp
  next
    case False
    with read_scalar(2) [OF rn] have nj: "\<forall>s. ?nj \<noteq> JStr s" by simp
    from False have "heap_call_normalize_name ?nv = Inl (AttributeError (lit ''replace''))"
      by (cases ?nv) (simp_all add: heap_call_normalize_name_def)
    with b have "heap_extract_tool_metadata a h = (Inl (AttributeError (lit ''replace'')), h1)"
      by (simp add: heap_extract_tool_metadata_def hd)
    moreover from nj have "call_normalize_name ?nj = Inl (AttributeError (lit ''replace''))"
      by (cases ?nj) (simp_all add: call_normalize_name_def)
    with bp have "extract_tool_metadata doc = Inl (AttributeError (lit ''replace''))"
      by (simp add: extract_tool_metadata_def and_then_def)
    ultimately show ?thesis by simp
  qed
qed
lemma read_items_getitem:
  assumes "read_items n h d = Some doc"
  shows "case dict_getitem d k of
           Inl e \<Rightarrow> dict_getitem doc k = Inl e
         | Inr v \<Rightarrow> (\<exists>j. read_tree n h v = Some j \<and> dict_getitem doc k = Inr j)"
  using read_items_lookup [OF assms, of k]
  by (auto simp: dict_getitem_def split: option.splits)

lemma heap_format_refines:
  assumes "read_tree (Suc k) h (VRef m) = Some (JObj meta)"
  shows "\<exists>r h'. heap_openai_format m h = (r, h') \<and>
           (case r of
              Inl e \<Rightarrow> openai_format meta = Inl e
            | Inr t \<Rightarrow>
                (\<exists>tool. openai_format meta = Inr tool
                   \<and> read_tree (Suc (Suc k)) h' (VRef t) = Some tool))"
    and "\<exists>r h'. heap_anthropic_format m h = (r, h') \<and>
           (case r of
              Inl e \<Rightarrow> anthropic_format meta = Inl e
            | Inr t \<Rightarrow>
                (\<exists>tool. anthropic_format meta = Inr tool
                   \<and> read_tree (Suc (Suc k)) h' (VRef t) = Some tool))"
proof -
  from assms obtain d where a: "m < length h" and d: "h ! m = DictObj d"
    and r: "read_items k h d = Some meta"
    by (cases "h ! m") (auto split: if_splits)
  from a d have hd: "heap_dict h m = d" by (simp add: heap_dict_def)
  have up: "read_tree k h v = Some j \<Longrightarrow> read_tree k (h @ new) v = Some j" for v j new
    using read_unchanged(1) [of h "h @ new" k v j] by (simp add: unchanged_def)
  note g = read_items_getitem [OF r, of "lit ''name''"]
    read_items_getitem [OF r, of "lit ''description''"]
    read_items_getitem [OF r, of "lit ''parameters''"]
  show "\<exists>r h'. heap_openai_format m h = (r, h') \<and>
           (case r of
              Inl e \<Rightarrow> openai_format meta = Inl e
            | Inr t \<Rightarrow>
                (\<exists>tool. openai_format meta = Inr tool
                   \<and> read_tree (Suc (Suc k)) h' (VRef t) = Some tool))"
    using g
    by (auto simp: heap_openai_format_def openai_format_def hd and_then_def heap_new_def
        nth_append up split: sum.splits)
  show "\<exists>r h'. heap_anthropic_format m h = (r, h') \<and>
           (case r of
              Inl e \<Rightarrow> anthropic_format meta = Inl e
            | Inr t \<Rightarrow>
                (\<exists>tool. anthropic_format meta = Inr tool
                   \<and> read_tree (Suc (Suc k)) h' (VRef t) = Some tool))"
    using g
    by (auto simp: heap_anthropic_format_def anthropic_format_def hd and_then_def
        heap_new_def nth_append up read_deeper(1) split: sum.splits)
qed

text \<open>
  The same for \<^verbatim>\<open>convert\<close>: on a document that reads as a tree, the converter on the store
  raises the error, or returns a tool definition that reads as the tool definition, that
  the converter on the tree raises or returns.
\<close>

lemma heap_convert_refines:
  assumes "read_tree (Suc n) h (VRef a) = Some (JObj doc)"
  shows "\<exists>r h'. heap_convert a fmt h = (r, h') \<and>
           (case r of
              Inl e \<Rightarrow> convert doc fmt = Inl e
            | Inr t \<Rightarrow>
                (\<exists>tool. convert doc fmt = Inr tool
                   \<and> read_tree (Suc (Suc (Suc n))) h' (VRef t) = Some tool))"
proof (cases "fmt \<in> set SUPPORTED_FORMATS")
  case False
  then show ?thesis by (simp add: heap_convert_def convert_def)
next
  case True
  from heap_extract_tool_metadata_refines [OF assms] obtain r h1
    where e: "heap_extract_tool_metadata a h = (r, h1)"
      and c: "case r of
                Inl e \<Rightarrow> extract_tool_metadata doc = Inl e
              | Inr m \<Rightarrow>
                  (\<exists>meta. extract_tool_metadata doc = Inr meta
                     \<and> read_tree (Suc (Suc n)) h1 (VRef m) = Some (JObj meta))"
    by blast
  show ?thesis
  proof (cases r)
    case (Inl err)
    with e c True show ?thesis
      by (simp add: heap_convert_def convert_def and_then_def)
  next
    case (Inr m)
    with c obtain meta where x: "extract_tool_metadata doc = Inr meta"
      and rm: "read_tree (Suc (Suc n)) h1 (VRef m) = Some (JObj meta)"
      by auto
    from True have "fmt = lit ''openai'' \<or> fmt = lit ''anthropic''"
      by (auto simp: SUPPORTED_FORMATS_def)
    then show ?thesis
    proof
      assume f: "fmt = lit ''openai''"
      with e Inr have hc: "heap_convert a fmt h = heap_openai_format m h1"
        by (simp add: heap_convert_def SUPPORTED_FORMATS_def)
      from f x have pc: "convert doc fmt = openai_format meta"
        by (simp add: convert_def SUPPORTED_FORMATS_def and_then_def)
      show ?thesis
        unfolding hc pc by (rule heap_format_refines(1) [OF rm])
    next
      assume f: "fmt = lit ''anthropic''"
      with e Inr have hc: "heap_convert a fmt h = heap_anthropic_format m h1"
        by (simp add: heap_convert_def SUPPORTED_FORMATS_def)
      from f x have pc: "convert doc fmt = anthropic_format meta"
        by (simp add: convert_def SUPPORTED_FORMATS_def and_then_def)
      show ?thesis
        unfolding hc pc by (rule heap_format_refines(2) [OF rm])
    qed
  qed
qed

text \<open>
  On the store with the titled document both models give the same metadata: the document
  reads as a tree, and the dictionary that the extractor allocates reads as what the
  extractor on that tree returns.
\<close>

lemma titled_heap_reads:
  "read_tree 2 titled_heap (VRef 0) =
     Some (JObj [(lit ''title'', JStr (lit ''my tool'')), (lit ''enum'', JArr [])])
   \<and> read_tree 3 (snd (heap_extract_tool_metadata 0 titled_heap)) (VRef 3) =
       Some (JObj [(lit ''name'', JStr (lit ''my_tool'')),
                   (lit ''description'', JStr []),
                   (lit ''parameters'', JObj [(lit ''enum'', JArr []), (lit ''type'', JStr (lit ''object''))])])"
  by code_simp

end
